theory Spec2Isabelle
  imports Main "HOL-Library.Word" "HOL-Library.Multiset"
begin

unbundle bit_operations_syntax

section \<open>Strings and numbers of the host language\<close>

text \<open>
  A JavaScript string is a sequence of UTF-16 code units; \<open>charCodeAt\<close> reads one unit.
  ASCII literals of the source are written \<open>utf16 ''...''\<close>.
\<close>

type_synonym jschar = "16 word"
type_synonym jsstring = "jschar list"

definition utf16 :: "string \<Rightarrow> jsstring" where
  "utf16 s = map (\<lambda>c. of_nat (of_char c)) s"

text \<open>
  Digits of \<open>Number.prototype.toString(radix)\<close> for a non-negative integer:
  \<open>0..9\<close> then \<open>a..z\<close>. Radix 10 is what \<open>JSON.stringify\<close> and template
  literals print for such a number.
\<close>

definition digit36 :: "nat \<Rightarrow> jschar" where
  "digit36 d = (if d < 10 then of_nat (48 + d) else of_nat (87 + d))"

function toStringRadix :: "nat \<Rightarrow> nat \<Rightarrow> jsstring" where
  "toStringRadix radix n =
     (if radix < 2 \<or> n < radix then [digit36 n]
      else toStringRadix radix (n div radix) @ [digit36 (n mod radix)])"
  by pat_completeness auto
termination
  by (relation "measure snd") auto

declare toStringRadix.simps [simp del]

section \<open>The document: scene nodes\<close>

text \<open>
  The colour components of a paint are host numbers; the model leaves their type \<open>'c\<close>
  open and takes the host's number-to-string conversion (what a template literal applies)
  as the parameter \<open>str\<close> wherever the source prints a component.

  \<open>fills\<close> is either the host's \<open>mixed\<close> symbol or an array of paints; only the
  \<open>SOLID\<close> paints carry a colour the plugin reads.

  A node is its id, name, type, text content (read for \<open>TEXT\<close> nodes only), fills and
  children in stored order. A node kind without a \<open>children\<close> property has no children.
\<close>

datatype 'c rgb = RGB (rgb_r: 'c) (rgb_g: 'c) (rgb_b: 'c)

datatype 'c paint = SOLID (color: "'c rgb") | GRADIENT | IMAGE

datatype 'c fills = MIXED | PAINTS "'c paint list"

datatype node_type = FRAME | GROUP | TEXT | RECTANGLE | ELLIPSE | VECTOR | OTHER

datatype 'c scene_node =
  SceneNode (node_id: jsstring) (node_name: jsstring) (node_type: node_type)
            (characters: jsstring) (fills: "'c fills") (children: "'c scene_node list")

section \<open>Cache entries and issues\<close>

datatype severity = Fail | Warning
datatype wcag_level = AA | AAA

text \<open>
  \<open>AccessibilityIssue\<close>. The fields \<open>suggestedFix\<close> and \<open>bounds\<close> are carried along
  unread by every function modelled here and are left out.
\<close>

record issue =
  elementId :: jsstring
  elementName :: jsstring
  issueType :: jsstring
  severity :: severity
  wcagLevel :: wcag_level
  currentValue :: jsstring
  requiredValue :: jsstring
  suggestion :: jsstring

text \<open>
  Every issue is built with \<open>elementId: node.id\<close> (or \<open>textNode.id\<close>), and nothing
  assigns the field afterwards. The ids the host gives its nodes (\<open>123:456\<close>, and
  \<open>I5:3;2:7\<close> inside an instance) are not empty and have no underscore, code unit
  \<open>0x5F\<close>, in them.
\<close>

definition nodeIdShaped :: "jsstring \<Rightarrow> bool" where
  "nodeIdShaped nid \<longleftrightarrow> nid \<noteq> [] \<and> 0x5F \<notin> set nid"

text \<open>\<open>CachedAnalysis\<close>; \<open>timestamp\<close> is epoch milliseconds.\<close>

record cached_analysis =
  timestamp :: int
  version :: jsstring
  contentHash :: jsstring
  results :: "issue list"

definition PLUGIN_VERSION :: jsstring where
  "PLUGIN_VERSION = utf16 ''1.0.0''"

definition CACHE_DURATION :: int where
  "CACHE_DURATION = 7 * 24 * 60 * 60 * 1000"

section \<open>Fingerprint generator\<close>

subsection \<open>\<open>simpleHash\<close>\<close>

text \<open>
  One round of the loop: \<open>hash = ((hash << 5) - hash) + char; hash = hash & hash\<close>.
  \<open>hash\<close> is a 32-bit integer after every round; the subtraction and addition are exact
  in the host's numbers and \<open>&\<close> wraps the sum to 32 bits, which is word arithmetic.
\<close>

definition hash_step :: "32 word \<Rightarrow> jschar \<Rightarrow> 32 word" where
  "hash_step hash c = (let h = (push_bit 5 hash - hash) + ucast c in h AND h)"

text \<open>\<open>Math.abs(hash).toString(36)\<close> on the signed reading of the 32-bit value.\<close>

definition simpleHash :: "jsstring \<Rightarrow> jsstring" where
  "simpleHash s = toStringRadix 36 (nat \<bar>sint (foldl hash_step 0 s)\<bar>)"

subsection \<open>\<open>JSON.stringify\<close> of the fingerprint object\<close>

definition hex4 :: "jschar \<Rightarrow> jsstring" where
  "hex4 c = (let n = unat c in
     [digit36 (n div 4096), digit36 (n div 256 mod 16), digit36 (n div 16 mod 16), digit36 (n mod 16)])"

text \<open>Code unit \<open>0x5C\<close> is the backslash, \<open>0x22\<close> the double quote.\<close>

definition UnicodeEscape :: "jschar \<Rightarrow> jsstring" where
  "UnicodeEscape c = 0x5C # utf16 ''u'' @ hex4 c"

definition isLeadingSurrogate :: "jschar \<Rightarrow> bool" where
  "isLeadingSurrogate c = (0xD800 \<le> c \<and> c \<le> 0xDBFF)"

definition isTrailingSurrogate :: "jschar \<Rightarrow> bool" where
  "isTrailingSurrogate c = (0xDC00 \<le> c \<and> c \<le> 0xDFFF)"

text \<open>One code unit that is not a surrogate, as \<open>QuoteJSONString\<close> prints it.\<close>

definition quoteUnit :: "jschar \<Rightarrow> jsstring" where
  "quoteUnit c =
     (if c = 0x08 then 0x5C # utf16 ''b''
      else if c = 0x09 then 0x5C # utf16 ''t''
      else if c = 0x0A then 0x5C # utf16 ''n''
      else if c = 0x0C then 0x5C # utf16 ''f''
      else if c = 0x0D then 0x5C # utf16 ''r''
      else if c = 0x22 then [0x5C, 0x22]
      else if c = 0x5C then [0x5C, 0x5C]
      else if c < 0x20 then UnicodeEscape c
      else [c])"

text \<open>
  The body of \<open>QuoteJSONString\<close>: the string is read code point by code point; a
  surrogate pair is printed as it is, a lone surrogate as a Unicode escape.
\<close>

fun quoteBody :: "jsstring \<Rightarrow> jsstring" where
  "quoteBody [] = []"
| "quoteBody [c] =
     (if isLeadingSurrogate c \<or> isTrailingSurrogate c then UnicodeEscape c else quoteUnit c)"
| "quoteBody (c # d # cs) =
     (if isLeadingSurrogate c then
        (if isTrailingSurrogate d then c # d # quoteBody cs
         else UnicodeEscape c @ quoteBody (d # cs))
      else if isTrailingSurrogate c then UnicodeEscape c @ quoteBody (d # cs)
      else quoteUnit c @ quoteBody (d # cs))"

definition QuoteJSONString :: "jsstring \<Rightarrow> jsstring" where
  "QuoteJSONString s = utf16 ''\"'' @ quoteBody s @ utf16 ''\"''"

fun joinComma :: "jsstring list \<Rightarrow> jsstring" where
  "joinComma [] = []"
| "joinComma [x] = x"
| "joinComma (x # y # ys) = x @ utf16 '','' @ joinComma (y # ys)"

definition stringifyStringArray :: "jsstring list \<Rightarrow> jsstring" where
  "stringifyStringArray xs = utf16 ''['' @ joinComma (map QuoteJSONString xs) @ utf16 '']''"

text \<open>
  \<open>JSON.stringify({childCount, texts, colors})\<close>: the three properties in the order
  the object literal creates them.
\<close>

definition stringifyFingerprint :: "nat \<Rightarrow> jsstring list \<Rightarrow> jsstring list \<Rightarrow> jsstring" where
  "stringifyFingerprint childCount texts colors =
     utf16 ''{\"childCount\":'' @ toStringRadix 10 childCount
     @ utf16 '',\"texts\":'' @ stringifyStringArray texts
     @ utf16 '',\"colors\":'' @ stringifyStringArray colors
     @ utf16 ''}''"

subsection \<open>The two walks\<close>

text \<open>
  \<open>collectTextContent\<close>: the inner \<open>walk\<close> pushes onto the array \<open>texts\<close>, which the
  model passes along.
\<close>

fun walkTexts :: "'c scene_node \<Rightarrow> jsstring list \<Rightarrow> jsstring list"
  and walkTextsEach :: "'c scene_node list \<Rightarrow> jsstring list \<Rightarrow> jsstring list" where
  "walkTexts (SceneNode i nm t ch fl cs) texts =
     walkTextsEach cs (if t = TEXT then texts @ [ch] else texts)"
| "walkTextsEach [] texts = texts"
| "walkTextsEach (child # rest) texts = walkTextsEach rest (walkTexts child texts)"

definition collectTextContent :: "'c scene_node \<Rightarrow> jsstring list" where
  "collectTextContent node = walkTexts node []"

text \<open>The colour string \<open>`${r},${g},${b}`\<close> pushed for one paint, if it is solid.\<close>

definition colorTriple :: "('c \<Rightarrow> jsstring) \<Rightarrow> 'c rgb \<Rightarrow> jsstring" where
  "colorTriple str c = str (rgb_r c) @ utf16 '','' @ str (rgb_g c) @ utf16 '','' @ str (rgb_b c)"

fun pushSolid :: "('c \<Rightarrow> jsstring) \<Rightarrow> 'c paint list \<Rightarrow> jsstring list \<Rightarrow> jsstring list" where
  "pushSolid str [] colors = colors"
| "pushSolid str (SOLID c # rest) colors = pushSolid str rest (colors @ [colorTriple str c])"
| "pushSolid str (p # rest) colors = pushSolid str rest colors"

fun walkColors :: "('c \<Rightarrow> jsstring) \<Rightarrow> 'c scene_node \<Rightarrow> jsstring list \<Rightarrow> jsstring list"
  and walkColorsEach :: "('c \<Rightarrow> jsstring) \<Rightarrow> 'c scene_node list \<Rightarrow> jsstring list \<Rightarrow> jsstring list" where
  "walkColors str (SceneNode i nm t ch fl cs) colors =
     walkColorsEach str cs
       (if t = TEXT then (case fl of MIXED \<Rightarrow> colors | PAINTS ps \<Rightarrow> pushSolid str ps colors)
        else colors)"
| "walkColorsEach str [] colors = colors"
| "walkColorsEach str (child # rest) colors = walkColorsEach str rest (walkColors str child colors)"

definition collectColors :: "('c \<Rightarrow> jsstring) \<Rightarrow> 'c scene_node \<Rightarrow> jsstring list" where
  "collectColors str node = walkColors str node []"

subsection \<open>\<open>generateContentHash\<close>\<close>

text \<open>
  \<open>fingerprintJSON\<close> is \<open>JSON.stringify(fingerprint)\<close> for the object the function
  builds, the string that is hashed.
\<close>

definition fingerprintJSON :: "('c \<Rightarrow> jsstring) \<Rightarrow> 'c scene_node \<Rightarrow> jsstring" where
  "fingerprintJSON str frame =
     stringifyFingerprint (length (children frame))
       (collectTextContent frame) (collectColors str frame)"

definition generateContentHash :: "('c \<Rightarrow> jsstring) \<Rightarrow> 'c scene_node \<Rightarrow> jsstring" where
  "generateContentHash str frame = simpleHash (fingerprintJSON str frame)"

text \<open>\<open>countElements\<close>: the node itself and all its descendants.\<close>

fun countElements :: "'c scene_node \<Rightarrow> nat"
  and countElementsEach :: "'c scene_node list \<Rightarrow> nat \<Rightarrow> nat" where
  "countElements (SceneNode i nm t ch fl cs) = countElementsEach cs 1"
| "countElementsEach [] cnt = cnt"
| "countElementsEach (child # rest) cnt = countElementsEach rest (cnt + countElements child)"

subsection \<open>The fingerprint as the specification words it\<close>

text \<open>
  The specification describes the fingerprint through a depth-first traversal in stored
  sibling order. These definitions follow its words: the nodes of the subtree in
  pre-order, the text leaves among them, their contents, their solid fill colours, and the
  number of descendants.
\<close>

fun preorder :: "'c scene_node \<Rightarrow> 'c scene_node list" where
  "preorder (SceneNode i nm t ch fl cs) = SceneNode i nm t ch fl cs # concat (map preorder cs)"

definition spec_textLeaves :: "'c scene_node \<Rightarrow> 'c scene_node list" where
  "spec_textLeaves n = filter (\<lambda>m. node_type m = TEXT) (preorder n)"

definition spec_textContents :: "'c scene_node \<Rightarrow> jsstring list" where
  "spec_textContents n = map characters (spec_textLeaves n)"

fun solidColors :: "'c paint list \<Rightarrow> 'c rgb list" where
  "solidColors [] = []"
| "solidColors (SOLID c # ps) = c # solidColors ps"
| "solidColors (p # ps) = solidColors ps"

definition spec_solidFillTriples :: "('c \<Rightarrow> jsstring) \<Rightarrow> 'c scene_node \<Rightarrow> jsstring list" where
  "spec_solidFillTriples str m =
     (case fills m of MIXED \<Rightarrow> [] | PAINTS ps \<Rightarrow> map (colorTriple str) (solidColors ps))"

definition spec_fillColors :: "('c \<Rightarrow> jsstring) \<Rightarrow> 'c scene_node \<Rightarrow> jsstring list" where
  "spec_fillColors str n = concat (map (spec_solidFillTriples str) (spec_textLeaves n))"

definition spec_descendantCount :: "'c scene_node \<Rightarrow> nat" where
  "spec_descendantCount n = length (preorder n) - 1"

subsection \<open>Editing a text leaf\<close>

text \<open>
  A node of the subtree is addressed by the child indices leading to it. The edit a user
  makes to a text layer replaces the \<open>characters\<close> of the node at a path and leaves
  everything else as it is.
\<close>

fun nodeAt :: "'c scene_node \<Rightarrow> nat list \<Rightarrow> 'c scene_node option" where
  "nodeAt n [] = Some n"
| "nodeAt n (k # p) = (if k < length (children n) then nodeAt (children n ! k) p else None)"

fun setCharacters :: "nat list \<Rightarrow> jsstring \<Rightarrow> 'c scene_node \<Rightarrow> 'c scene_node" where
  "setCharacters [] s (SceneNode i nm t ch fl cs) = SceneNode i nm t s fl cs"
| "setCharacters (k # p) s (SceneNode i nm t ch fl cs) =
     SceneNode i nm t ch fl (if k < length cs then cs[k := setCharacters p s (cs ! k)] else cs)"

subsection \<open>Reading a quoted string back\<close>

text \<open>
  The inverse of \<open>QuoteJSONString\<close>, used to show that the serialisation keeps texts
  apart: \<open>readBody\<close> reads up to the closing quote and returns the string read and the
  input left.
\<close>

definition hexValue :: "jschar \<Rightarrow> nat" where
  "hexValue c = (if c \<le> 57 then unat c - 48 else unat c - 87)"

definition unhex4 :: "jschar \<Rightarrow> jschar \<Rightarrow> jschar \<Rightarrow> jschar \<Rightarrow> jschar" where
  "unhex4 a b c d = of_nat (4096 * hexValue a + 256 * hexValue b + 16 * hexValue c + hexValue d)"

definition unescape :: "jschar \<Rightarrow> jschar" where
  "unescape x = (if x = 0x62 then 0x08 else if x = 0x74 then 0x09 else if x = 0x6E then 0x0A
                 else if x = 0x66 then 0x0C else if x = 0x72 then 0x0D else x)"

definition consRead :: "jschar \<Rightarrow> (jsstring \<times> jsstring) option \<Rightarrow> (jsstring \<times> jsstring) option" where
  "consRead c r = (case r of None \<Rightarrow> None | Some (s, rest) \<Rightarrow> Some (c # s, rest))"

fun readBody :: "jsstring \<Rightarrow> (jsstring \<times> jsstring) option"
  and readEscape :: "jsstring \<Rightarrow> (jsstring \<times> jsstring) option" where
  "readBody [] = None"
| "readBody (c # cs) =
     (if c = 0x22 then Some ([], cs)
      else if c = 0x5C then readEscape cs
      else consRead c (readBody cs))"
| "readEscape [] = None"
| "readEscape (x # cs) =
     (if x = 0x75 then
        (case cs of
           h1 # h2 # h3 # h4 # rest \<Rightarrow> consRead (unhex4 h1 h2 h3 h4) (readBody rest)
         | _ \<Rightarrow> None)
      else consRead (unescape x) (readBody cs))"

subsection \<open>Example frames\<close>

text \<open>
  Colour components 0 and 1 are whole numbers, which the host prints in decimal; the
  examples take \<open>nat\<close> for the component type and \<open>toStringRadix 10\<close> for \<open>str\<close>.
\<close>

definition frame_nested :: "nat scene_node" where
  "frame_nested =
     SceneNode (utf16 ''1:1'') (utf16 ''Frame'') FRAME [] (PAINTS [])
       [SceneNode (utf16 ''1:2'') (utf16 ''Group'') GROUP [] (PAINTS [])
          [SceneNode (utf16 ''1:3'') (utf16 ''Rect'') RECTANGLE [] (PAINTS []) []]]"

definition frame_flat :: "nat scene_node" where
  "frame_flat =
     SceneNode (utf16 ''1:1'') (utf16 ''Frame'') FRAME [] (PAINTS [])
       [SceneNode (utf16 ''1:2'') (utf16 ''Rect'') RECTANGLE [] (PAINTS []) [],
        SceneNode (utf16 ''1:3'') (utf16 ''Rect'') RECTANGLE [] (PAINTS []) []]"

definition frame_label :: "nat scene_node" where
  "frame_label =
     SceneNode (utf16 ''1:1'') (utf16 ''Frame'') FRAME [] (PAINTS [])
       [SceneNode (utf16 ''1:2'') (utf16 ''Label'') TEXT (utf16 ''Aa'')
          (PAINTS [SOLID (RGB 0 0 0)]) []]"

definition frame_label_renamed :: "nat scene_node" where
  "frame_label_renamed =
     SceneNode (utf16 ''7:1'') (utf16 ''Card'') FRAME [] (PAINTS [SOLID (RGB 1 1 1)])
       [SceneNode (utf16 ''7:2'') (utf16 ''Title'') TEXT (utf16 ''Aa'')
          (PAINTS [SOLID (RGB 0 0 0)]) []]"

section \<open>Grouping issues for the panel\<close>

text \<open>
  \<open>groupIssuesByElement\<close>. The object \<open>grouped\<close> is the association list of its own
  properties in insertion order, which is the order \<open>Object.entries\<close> lists them in (every
  key contains an underscore, so none is an array index). A member of a group is the issue
  with its position in the input, \<open>{...issue, index}\<close>.

  The object is made by \<open>{}\<close>, so the read \<open>grouped[key]\<close> of a key that is no own
  property goes on to \<open>Object.prototype\<close>; \<open>objectPrototypeKeys\<close> are the names found
  there. What is found there is an object or a function: it is truthy and has no \<open>push\<close>.
\<close>

type_synonym member = "issue \<times> nat"

record issue_group =
  group_elementName :: jsstring
  group_elementId :: jsstring
  group_issues :: "member list"

datatype js_error = TypeError | Thrown jsstring

definition groupKey :: "issue \<Rightarrow> jsstring" where
  "groupKey i = elementName i @ utf16 ''_'' @ elementId i"

definition objectPrototypeKeys :: "jsstring list" where
  "objectPrototypeKeys = map utf16
     [''constructor'', ''hasOwnProperty'', ''isPrototypeOf'', ''propertyIsEnumerable'',
      ''toLocaleString'', ''toString'', ''valueOf'', ''__proto__'', ''__defineGetter__'',
      ''__defineSetter__'', ''__lookupGetter__'', ''__lookupSetter__'']"

datatype property = OwnArray "member list" | Inherited | Undefined

definition getProperty :: "(jsstring \<times> member list) list \<Rightarrow> jsstring \<Rightarrow> property" where
  "getProperty grouped key =
     (case map_of grouped key of
        Some ms \<Rightarrow> OwnArray ms
      | None \<Rightarrow> if key \<in> set objectPrototypeKeys then Inherited else Undefined)"

text \<open>
  One round of the \<open>forEach\<close>: when \<open>grouped[key]\<close> is falsy, which only \<open>undefined\<close> is
  here, create the empty array under the key; then call \<open>push\<close> on \<open>grouped[key]\<close>, which
  raises a \<open>TypeError\<close> on anything but an array.
\<close>

definition addToGroup ::
  "(jsstring \<times> member list) list \<Rightarrow> member \<Rightarrow> js_error + (jsstring \<times> member list) list" where
  "addToGroup grouped m =
     (let key = groupKey (fst m);
          grouped1 = (case getProperty grouped key of
                        Undefined \<Rightarrow> grouped @ [(key, [])]
                      | OwnArray ms \<Rightarrow> grouped
                      | Inherited \<Rightarrow> grouped)
      in case getProperty grouped1 key of
           OwnArray ms \<Rightarrow>
             Inr (map (\<lambda>(k, ms). if k = key then (k, ms @ [m]) else (k, ms)) grouped1)
         | Inherited \<Rightarrow> Inl TypeError
         | Undefined \<Rightarrow> Inl TypeError)"

text \<open>The \<open>forEach\<close> itself: a round that raises ends the loop and the function.\<close>

fun forEachIssue ::
  "(jsstring \<times> member list) list \<Rightarrow> member list \<Rightarrow> js_error + (jsstring \<times> member list) list" where
  "forEachIssue grouped [] = Inr grouped"
| "forEachIssue grouped (m # ms) =
     (case addToGroup grouped m of
        Inl err \<Rightarrow> Inl err
      | Inr grouped1 \<Rightarrow> forEachIssue grouped1 ms)"

text \<open>
  The final \<open>map\<close> reads \<open>issues[0]\<close>; on an empty array that read would raise a
  \<open>TypeError\<close>, which is the \<open>Inl\<close> result.
\<close>

definition toGroup :: "jsstring \<times> member list \<Rightarrow> js_error + issue_group" where
  "toGroup e =
     (case snd e of
        [] \<Rightarrow> Inl TypeError
      | m # ms \<Rightarrow> Inr \<lparr>group_elementName = elementName (fst m),
                        group_elementId = elementId (fst m),
                        group_issues = snd e\<rparr>)"

fun toGroups :: "(jsstring \<times> member list) list \<Rightarrow> js_error + issue_group list" where
  "toGroups [] = Inr []"
| "toGroups (e # es) =
     (case toGroup e of
        Inl err \<Rightarrow> Inl err
      | Inr g \<Rightarrow> (case toGroups es of Inl err \<Rightarrow> Inl err | Inr gs \<Rightarrow> Inr (g # gs)))"

definition groupIssuesByElement :: "issue list \<Rightarrow> js_error + issue_group list" where
  "groupIssuesByElement issues =
     (case forEachIssue [] (zip issues [0..<length issues]) of
        Inl err \<Rightarrow> Inl err
      | Inr grouped \<Rightarrow> toGroups grouped)"

section \<open>Local cache store\<close>

text \<open>
  \<open>isExpired\<close> and \<open>isCacheValid\<close>. \<open>Date.now()\<close> is the argument \<open>now\<close>; the
  three tests are made in the order of the source.
\<close>

definition isExpired :: "int \<Rightarrow> int \<Rightarrow> bool" where
  "isExpired now ts = (now - ts > CACHE_DURATION)"

definition isCacheValid :: "('c \<Rightarrow> jsstring) \<Rightarrow> int \<Rightarrow> 'c scene_node \<Rightarrow> cached_analysis \<Rightarrow> bool" where
  "isCacheValid str now frame cached =
     (if isExpired now (timestamp cached) then False
      else if version cached \<noteq> PLUGIN_VERSION then False
      else if generateContentHash str frame \<noteq> contentHash cached then False
      else True)"

text \<open>\<open>getCacheAge\<close>: \<open>Math.floor\<close> of a quotient of whole numbers is \<open>div\<close>.\<close>

definition getCacheAge :: "int \<Rightarrow> int \<Rightarrow> jsstring" where
  "getCacheAge now ts =
     (let ageMs = now - ts;
          ageMinutes = ageMs div 60000;
          ageHours = ageMinutes div 60;
          ageDays = ageHours div 24
      in if ageDays > 0 then toStringRadix 10 (nat ageDays) @ utf16 ''d ago''
         else if ageHours > 0 then toStringRadix 10 (nat ageHours) @ utf16 ''h ago''
         else if ageMinutes > 0 then toStringRadix 10 (nat ageMinutes) @ utf16 ''m ago''
         else utf16 ''just now'')"

text \<open>
  What the plugin sends out, in the order it does: messages to the panel, toasts, console
  errors, overlay operations, a run of the analysis driver (\<open>analyzeFrame\<close>), and network
  requests (\<open>fetch\<close>) with their URL.
\<close>

datatype ui_message =
    ErrorMessage jsstring
  | AnalysisProgress nat nat
  | AnalysisComplete "issue_group list" nat bool "jsstring option"

datatype notification =
    LoadedFromCache jsstring
  | AnalysisCompleteFound nat
  | AnalysisFailedNote

datatype event =
    PostMessage ui_message
  | Notify notification
  | ConsoleError
  | ClearOverlays
  | CreateOverlay
  | RunAnalysis
  | Fetch jsstring

text \<open>
  The plugin's state: tier 1 is the map \<open>analysisCache\<close> from node id to entry; tier 2 is
  the plugin-data slot of each node under \<open>PLUGIN_DATA_KEY\<close>, the empty string when unset.
\<close>

record 'c plugin_state =
  analysisCache :: "jsstring \<rightharpoonup> cached_analysis"
  pluginData :: "jsstring \<Rightarrow> jsstring"
  selectedFrame :: "'c scene_node option"
  currentIssues :: "issue list"
  events :: "event list"

text \<open>
  What the host decides during one request. \<open>JSON.parse\<close> of a slot either raises, or
  yields a falsy value, or yields an entry (the source types the parsed value as
  \<open>CachedAnalysis\<close>). \<open>analyzeFrame\<close> either raises, having pushed
  some issues, or returns with the issues it pushed. \<open>createOverlayFrame\<close> may raise.
  \<open>setPluginData\<close> of a non-empty value may raise (storage quota).
  \<open>typeErrorText\<close> is what the engine makes of the \<open>TypeError\<close> of a failed \<open>push\<close> when
  it is appended to a string: \<open>TypeError: \<close> and the engine's own message.
\<close>

datatype parsed = SyntaxError | Falsy | Entry cached_analysis

datatype driver_outcome = Raised jsstring "issue list" | Returned "issue list"

record checks =
  colorContrast :: bool
  textSpacing :: bool
  lineHeight :: bool
  paragraphSpacing :: bool
  nonTextContrast :: bool

record 'c host =
  numberToString :: "'c \<Rightarrow> jsstring"
  Date_now :: int
  JSON_parse :: "jsstring \<Rightarrow> parsed"
  JSON_stringify :: "cached_analysis \<Rightarrow> jsstring"
  setPluginData_raises :: bool
  analyzeFrame :: "'c scene_node \<Rightarrow> checks \<Rightarrow> driver_outcome"
  enhanceWithAI :: "issue list \<Rightarrow> issue list"
  createOverlayFrame :: "'c scene_node \<Rightarrow> issue list \<Rightarrow> jsstring option"
  typeErrorText :: jsstring

definition emit :: "event \<Rightarrow> 'c plugin_state \<Rightarrow> 'c plugin_state" where
  "emit e s = s\<lparr>events := events s @ [e]\<rparr>"

definition clearFrameCache :: "'c scene_node \<Rightarrow> 'c plugin_state \<Rightarrow> 'c plugin_state" where
  "clearFrameCache frame s =
     s\<lparr>analysisCache := (analysisCache s)(node_id frame := None),
       pluginData := (pluginData s)(node_id frame := [])\<rparr>"

text \<open>The tail of \<open>getCachedAnalysis\<close>, reached with an entry in hand.\<close>

definition validateOrClear ::
  "'c host \<Rightarrow> 'c scene_node \<Rightarrow> cached_analysis \<Rightarrow> 'c plugin_state
     \<Rightarrow> cached_analysis option \<times> 'c plugin_state" where
  "validateOrClear h frame cached s =
     (if isCacheValid (numberToString h) (Date_now h) frame cached then (Some cached, s)
      else (None, clearFrameCache frame s))"

definition getCachedAnalysis ::
  "'c host \<Rightarrow> 'c scene_node \<Rightarrow> 'c plugin_state \<Rightarrow> cached_analysis option \<times> 'c plugin_state" where
  "getCachedAnalysis h frame s =
     (case analysisCache s (node_id frame) of
        Some cached \<Rightarrow> validateOrClear h frame cached s
      | None \<Rightarrow>
          (let data = pluginData s (node_id frame) in
           if data = [] then (None, s)
           else (case JSON_parse h data of
                   SyntaxError \<Rightarrow> (None, emit ConsoleError s)
                 | Falsy \<Rightarrow> (None, s)
                 | Entry cached \<Rightarrow>
                     validateOrClear h frame cached
                       (s\<lparr>analysisCache := (analysisCache s)(node_id frame \<mapsto> cached)\<rparr>))))"

definition setCachedAnalysis ::
  "'c host \<Rightarrow> 'c scene_node \<Rightarrow> issue list \<Rightarrow> 'c plugin_state \<Rightarrow> 'c plugin_state" where
  "setCachedAnalysis h frame res s =
     (let cached = \<lparr>timestamp = Date_now h, version = PLUGIN_VERSION,
                     contentHash = generateContentHash (numberToString h) frame,
                     results = res\<rparr>;
          s1 = s\<lparr>analysisCache := (analysisCache s)(node_id frame \<mapsto> cached)\<rparr>
      in if setPluginData_raises h then emit ConsoleError s1
         else s1\<lparr>pluginData := (pluginData s1)(node_id frame := JSON_stringify h cached)\<rparr>)"

section \<open>Cache coordinator: the \<open>analyze\<close> message\<close>

text \<open>
  The handler's \<open>analyze\<close> branch. Its body runs inside \<open>try\<close>: a step that raises
  leaves the state as it was at that point and hands the error to \<open>catch\<close>. The body
  therefore returns the error raised, if any, with the state reached. The clock is read
  once per request.

  The variables \<open>isPaused\<close>, \<open>analysisProgress\<close>, \<open>totalElements\<close> and
  \<open>overlayFrame\<close> are not part of the state here: nothing below reads them. The
  messages the driver posts while it runs (progress, font errors) belong to its run,
  which is the single event \<open>RunAnalysis\<close>; console output other than errors is left out.
\<close>

record analyze_msg =
  forceReanalyze :: bool
  msg_checks :: checks
  useAI :: bool
  apiKey :: jsstring
  showOverlay :: bool

definition errorToString :: "'c host \<Rightarrow> js_error \<Rightarrow> jsstring" where
  "errorToString h e = (case e of TypeError \<Rightarrow> typeErrorText h | Thrown t \<Rightarrow> t)"

definition DEEPSEEK_URL :: jsstring where
  "DEEPSEEK_URL = utf16 ''https://api.deepseek.com/v1/chat/completions''"

definition catchAnalysisError :: "jsstring \<Rightarrow> 'c plugin_state \<Rightarrow> 'c plugin_state" where
  "catchAnalysisError err s =
     emit (Notify AnalysisFailedNote)
       (emit (PostMessage (ErrorMessage (utf16 ''Analysis failed: '' @ err)))
          (emit ConsoleError s))"

text \<open>The branch taken when \<open>getCachedAnalysis\<close> returned an entry.\<close>

definition servedFromCache ::
  "'c host \<Rightarrow> analyze_msg \<Rightarrow> 'c scene_node \<Rightarrow> cached_analysis \<Rightarrow> 'c plugin_state
     \<Rightarrow> jsstring option \<times> 'c plugin_state" where
  "servedFromCache h msg frame cached s =
     (case groupIssuesByElement (results cached) of
        Inl err \<Rightarrow> (Some (errorToString h err), s)
      | Inr groupedIssues \<Rightarrow>
          (let age = getCacheAge (Date_now h) (timestamp cached);
               s1 = emit (PostMessage (AnalysisComplete groupedIssues (length (results cached))
                            True (Some age))) s
           in if results cached \<noteq> [] \<and> showOverlay msg then
                (let s2 = s1\<lparr>currentIssues := results cached\<rparr> in
                 case createOverlayFrame h frame (results cached) of
                   Some err \<Rightarrow> (Some err, s2)
                 | None \<Rightarrow> (None, emit (Notify (LoadedFromCache age)) (emit CreateOverlay s2)))
              else (None, emit (Notify (LoadedFromCache age)) s1)))"

text \<open>The rest of the body: a fresh analysis.\<close>

definition freshAnalysis ::
  "'c host \<Rightarrow> analyze_msg \<Rightarrow> 'c scene_node \<Rightarrow> 'c plugin_state
     \<Rightarrow> jsstring option \<times> 'c plugin_state" where
  "freshAnalysis h msg frame s =
     (let s1 = s\<lparr>currentIssues := []\<rparr>;
          s2 = emit ClearOverlays s1;
          s3 = emit (PostMessage (AnalysisProgress 0 (countElements frame))) s2;
          s4 = emit RunAnalysis s3
      in case analyzeFrame h frame (msg_checks msg) of
           Raised err pushed \<Rightarrow> (Some err, s4\<lparr>currentIssues := pushed\<rparr>)
         | Returned found \<Rightarrow>
             (let s5 = s4\<lparr>currentIssues := found\<rparr>;
                  s6 = (if useAI msg \<and> apiKey msg \<noteq> []
                        then (emit (Fetch DEEPSEEK_URL) s5)\<lparr>currentIssues := enhanceWithAI h found\<rparr>
                        else s5);
                  s7 = setCachedAnalysis h frame (currentIssues s6) s6
              in case groupIssuesByElement (currentIssues s7) of
                   Inl err \<Rightarrow> (Some (errorToString h err), s7)
                 | Inr groupedIssues \<Rightarrow>
                     (let totalIssues = length (currentIssues s7);
                          s8 = emit (PostMessage (AnalysisComplete groupedIssues totalIssues False None)) s7
                      in if currentIssues s7 \<noteq> [] \<and> showOverlay msg then
                           (case createOverlayFrame h frame (currentIssues s7) of
                              Some err \<Rightarrow> (Some err, s8)
                            | None \<Rightarrow> (None, emit (Notify (AnalysisCompleteFound totalIssues))
                                               (emit CreateOverlay s8)))
                         else (None, emit (Notify (AnalysisCompleteFound totalIssues)) s8))))"

text \<open>The \<open>catch\<close> clause applied to what the body returned.\<close>

fun tryCatch :: "jsstring option \<times> 'c plugin_state \<Rightarrow> 'c plugin_state" where
  "tryCatch (None, s) = s"
| "tryCatch (Some err, s) = catchAnalysisError err s"

definition onAnalyze :: "'c host \<Rightarrow> analyze_msg \<Rightarrow> 'c plugin_state \<Rightarrow> 'c plugin_state" where
  "onAnalyze h msg s =
     (case selectedFrame s of
        None \<Rightarrow> emit (PostMessage (ErrorMessage (utf16 ''Please select a frame first''))) s
      | Some frame \<Rightarrow>
          tryCatch
            (if \<not> forceReanalyze msg then
               (case getCachedAnalysis h frame s of
                  (Some cached, s1) \<Rightarrow> servedFromCache h msg frame cached s1
                | (None, s1) \<Rightarrow> freshAnalysis h msg frame s1)
             else freshAnalysis h msg frame s))"

section \<open>Background colour for the contrast checks\<close>

text \<open>
  \<open>getBackgroundColor\<close> follows the \<open>parent\<close> links of a node up to the root. The chain
  is given as the list of the ancestors' \<open>fills\<close>, nearest first, with \<open>None\<close> for an
  ancestor that has no \<open>fills\<close> property (the page, the document).
\<close>

fun getBackgroundColor :: "('c::one) fills option list \<Rightarrow> 'c rgb" where
  "getBackgroundColor [] = RGB 1 1 1"
| "getBackgroundColor (Some (PAINTS (SOLID c # others)) # ancestors) = c"
| "getBackgroundColor (parent # ancestors) = getBackgroundColor ancestors"

text \<open>
  The lookup as the specification words it: the first solid fill of the first ancestor that has
  one, white when no ancestor has a solid fill.
\<close>

fun spec_backgroundColor :: "('c::one) fills option list \<Rightarrow> 'c rgb" where
  "spec_backgroundColor [] = RGB 1 1 1"
| "spec_backgroundColor (Some (PAINTS ps) # ancestors) =
     (case solidColors ps of c # others \<Rightarrow> c | [] \<Rightarrow> spec_backgroundColor ancestors)"
| "spec_backgroundColor (parent # ancestors) = spec_backgroundColor ancestors"

section \<open>Remote history: change detection\<close>

text \<open>
  The table \<open>frame_changes\<close> and the SQL function \<open>detect_frame_change\<close>. The row's
  \<open>id\<close> and the two timestamps are column defaults (\<open>gen_random_uuid()\<close>, \<open>now()\<close>),
  supplied here as arguments; \<open>is_resolved\<close> defaults to false.
\<close>

record frame_change =
  change_id :: nat
  change_frame_id :: jsstring
  previous_hash :: jsstring
  current_hash :: jsstring
  change_detected_at :: int
  is_resolved :: bool
  change_created_at :: int

definition detect_frame_change ::
  "nat \<Rightarrow> int \<Rightarrow> jsstring \<Rightarrow> jsstring \<Rightarrow> jsstring \<Rightarrow> frame_change list
     \<Rightarrow> bool \<times> frame_change list" where
  "detect_frame_change uuid now p_frame_id p_previous_hash p_current_hash frame_changes =
     (let v_has_changed = (p_previous_hash \<noteq> p_current_hash)
      in (v_has_changed,
          if v_has_changed
          then frame_changes @
                 [\<lparr>change_id = uuid, change_frame_id = p_frame_id,
                   previous_hash = p_previous_hash, current_hash = p_current_hash,
                   change_detected_at = now, is_resolved = False, change_created_at = now\<rparr>]
          else frame_changes))"

text \<open>
  \<open>SupabaseClient.detectFrameChange\<close> posts to the RPC and returns its result. The
  request either reaches the function, or the response is not ok and \<open>request\<close> raises
  with the response text, or \<open>fetch\<close> itself rejects.
\<close>

datatype transport = Delivered | NotOk jsstring | Rejected

definition detectFrameChange ::
  "transport \<Rightarrow> nat \<Rightarrow> int \<Rightarrow> jsstring \<Rightarrow> jsstring \<Rightarrow> jsstring \<Rightarrow> frame_change list
     \<Rightarrow> (js_error + bool) \<times> frame_change list" where
  "detectFrameChange tr uuid now frameId previousHash currentHash frame_changes =
     (case tr of
        Delivered \<Rightarrow>
          (let (result, frame_changes') =
                 detect_frame_change uuid now frameId previousHash currentHash frame_changes
           in (Inr result, frame_changes'))
      | NotOk text \<Rightarrow> (Inl (Thrown (utf16 ''Supabase request failed: '' @ text)), frame_changes)
      | Rejected \<Rightarrow> (Inl TypeError, frame_changes))"

section \<open>Auxiliary notions for the grouping proof\<close>

text \<open>
  The push of one round on a single entry; a round whose key is not an inherited name,
  which cannot raise; the invariant of the loop (keys distinct, no group empty, every
  member under its own key, the members so far all there once); and the group an entry
  is turned into.
\<close>

fun pushUnder :: "jsstring \<Rightarrow> member \<Rightarrow> jsstring \<times> member list \<Rightarrow> jsstring \<times> member list" where
  "pushUnder key m (k, ms) = (if k = key then (k, ms @ [m]) else (k, ms))"

definition addOwn :: "(jsstring \<times> member list) list \<Rightarrow> member \<Rightarrow> (jsstring \<times> member list) list" where
  "addOwn grouped m =
     map (pushUnder (groupKey (fst m)) m)
       (if groupKey (fst m) \<in> fst ` set grouped then grouped
        else grouped @ [(groupKey (fst m), [])])"

definition grouped_ok :: "(jsstring \<times> member list) list \<Rightarrow> member list \<Rightarrow> bool" where
  "grouped_ok G done \<longleftrightarrow>
     distinct (map fst G)
     \<and> list_all (\<lambda>e. snd e \<noteq> [] \<and> list_all (\<lambda>m. groupKey (fst m) = fst e) (snd e)) G
     \<and> mset (concat (map snd G)) = mset done"

definition asGroup :: "jsstring \<times> member list \<Rightarrow> issue_group" where
  "asGroup e = \<lparr>group_elementName = elementName (fst (hd (snd e))),
                group_elementId = elementId (fst (hd (snd e))),
                group_issues = snd e\<rparr>"

text \<open>
  Example issues. The first three carry node ids as the host assigns them. The others do
  not: two with different names and ids and the same key \<open>a_b_c\<close>, and one with an empty
  id whose key is \<open>__proto__\<close>.
\<close>

definition issue_title_contrast :: issue where
  "issue_title_contrast = \<lparr>elementId = utf16 ''1:2'', elementName = utf16 ''Title'',
     issueType = utf16 ''Color Contrast'', severity = Fail, wcagLevel = AA,
     currentValue = utf16 ''3.00:1'', requiredValue = utf16 ''4.5:1'',
     suggestion = utf16 ''Change text color to #595959 to meet AA standards''\<rparr>"

definition issue_body_spacing :: issue where
  "issue_body_spacing = \<lparr>elementId = utf16 ''1:3'', elementName = utf16 ''Body'',
     issueType = utf16 ''Text Spacing'', severity = Fail, wcagLevel = AA,
     currentValue = utf16 ''0.0px'', requiredValue = utf16 ''1.9px (0.12em)'',
     suggestion = utf16 ''Increase letter spacing to 1.9px''\<rparr>"

definition issue_title_lineheight :: issue where
  "issue_title_lineheight = \<lparr>elementId = utf16 ''1:2'', elementName = utf16 ''Title'',
     issueType = utf16 ''Line Height'', severity = Fail, wcagLevel = AA,
     currentValue = utf16 ''12.0px'', requiredValue = utf16 ''18.0px (1.5x)'',
     suggestion = utf16 ''Increase line height to 18.0px''\<rparr>"

definition issue_ab_c :: issue where
  "issue_ab_c = \<lparr>elementId = utf16 ''c'', elementName = utf16 ''a_b'',
     issueType = utf16 ''Line Height'', severity = Fail, wcagLevel = AA,
     currentValue = utf16 ''12.0px'', requiredValue = utf16 ''18.0px (1.5x)'',
     suggestion = utf16 ''Increase line height to 18.0px''\<rparr>"

definition issue_a_bc :: issue where
  "issue_a_bc = \<lparr>elementId = utf16 ''b_c'', elementName = utf16 ''a'',
     issueType = utf16 ''Line Height'', severity = Fail, wcagLevel = AA,
     currentValue = utf16 ''12.0px'', requiredValue = utf16 ''18.0px (1.5x)'',
     suggestion = utf16 ''Increase line height to 18.0px''\<rparr>"

definition issue_proto :: issue where
  "issue_proto = \<lparr>elementId = [], elementName = utf16 ''__proto_'',
     issueType = utf16 ''Line Height'', severity = Fail, wcagLevel = AA,
     currentValue = utf16 ''12.0px'', requiredValue = utf16 ''18.0px (1.5x)'',
     suggestion = utf16 ''Increase line height to 18.0px''\<rparr>"

section \<open>Auxiliary notions for the background colour\<close>

text \<open>
  The colour of an ancestor's first fill when that fill is solid, and all solid fill
  colours of an ancestor.
\<close>

fun firstFillColor :: "'c fills option \<Rightarrow> 'c rgb option" where
  "firstFillColor (Some (PAINTS (SOLID c # others))) = Some c"
| "firstFillColor parent = None"

fun ancestorSolidFills :: "'c fills option \<Rightarrow> 'c rgb list" where
  "ancestorSolidFills (Some (PAINTS ps)) = solidColors ps"
| "ancestorSolidFills parent = []"

section \<open>Auxiliary notions and examples for the cache coordinator\<close>

text \<open>Events that are a run of the analysis driver or a network request.\<close>

fun isDriverOrRemote :: "event \<Rightarrow> bool" where
  "isDriverOrRemote RunAnalysis = True"
| "isDriverOrRemote (Fetch url) = True"
| "isDriverOrRemote e = False"

text \<open>
  An example host. \<open>stringifyEntryNoResults\<close> is \<open>JSON.stringify\<close> on an entry without
  results; the parser of the example reads the serialised example entry back and rejects
  everything else it is given here. The first driver finds no issue, the second one
  raises.
\<close>

definition stringifyEntryNoResults :: "cached_analysis \<Rightarrow> jsstring" where
  "stringifyEntryNoResults c =
     utf16 ''{\"timestamp\":'' @ toStringRadix 10 (nat (timestamp c))
     @ utf16 '',\"version\":'' @ QuoteJSONString (version c)
     @ utf16 '',\"contentHash\":'' @ QuoteJSONString (contentHash c)
     @ utf16 '',\"results\":[]}''"

definition example_entry :: cached_analysis where
  "example_entry = \<lparr>timestamp = 1762990000000, version = PLUGIN_VERSION,
     contentHash = utf16 ''jpiaoq'', results = []\<rparr>"

definition example_parse :: "jsstring \<Rightarrow> parsed" where
  "example_parse data =
     (if data = stringifyEntryNoResults example_entry then Entry example_entry else SyntaxError)"

definition driver_finds_nothing :: "nat scene_node \<Rightarrow> checks \<Rightarrow> driver_outcome" where
  "driver_finds_nothing frame chk = Returned []"

definition driver_raises :: "nat scene_node \<Rightarrow> checks \<Rightarrow> driver_outcome" where
  "driver_raises frame chk = Raised (utf16 ''TypeError: not a function'') []"

definition suggestions_unchanged :: "issue list \<Rightarrow> issue list" where
  "suggestions_unchanged found = found"

definition overlay_succeeds :: "nat scene_node \<Rightarrow> issue list \<Rightarrow> jsstring option" where
  "overlay_succeeds frame found = None"

definition example_host :: "nat host" where
  "example_host = \<lparr>numberToString = toStringRadix 10, Date_now = 1763000000000,
     JSON_parse = example_parse, JSON_stringify = stringifyEntryNoResults,
     setPluginData_raises = False, analyzeFrame = driver_finds_nothing,
     enhanceWithAI = suggestions_unchanged, createOverlayFrame = overlay_succeeds,
     typeErrorText = utf16 ''TypeError: not a function''\<rparr>"

definition failing_host :: "nat host" where
  "failing_host = \<lparr>numberToString = toStringRadix 10, Date_now = 1763000000000,
     JSON_parse = example_parse, JSON_stringify = stringifyEntryNoResults,
     setPluginData_raises = False, analyzeFrame = driver_raises,
     enhanceWithAI = suggestions_unchanged, createOverlayFrame = overlay_succeeds,
     typeErrorText = utf16 ''TypeError: not a function''\<rparr>"

definition all_checks :: checks where
  "all_checks = \<lparr>colorContrast = True, textSpacing = True, lineHeight = True,
     paragraphSpacing = True, nonTextContrast = True\<rparr>"

definition msg_plain :: analyze_msg where
  "msg_plain = \<lparr>forceReanalyze = False, msg_checks = all_checks, useAI = False,
     apiKey = [], showOverlay = False\<rparr>"

definition msg_forced :: analyze_msg where
  "msg_forced = \<lparr>forceReanalyze = True, msg_checks = all_checks, useAI = False,
     apiKey = [], showOverlay = False\<rparr>"

text \<open>
  Two issues of the label in \<open>frame_label\<close>, and an entry for that frame that holds them.
\<close>

definition issue_label_contrast :: issue where
  "issue_label_contrast = \<lparr>elementId = utf16 ''1:2'', elementName = utf16 ''Label'',
     issueType = utf16 ''Color Contrast'', severity = Fail, wcagLevel = AA,
     currentValue = utf16 ''3.00:1'', requiredValue = utf16 ''4.5:1'',
     suggestion = utf16 ''Change text color to #595959 to meet AA standards''\<rparr>"

definition issue_label_lineheight :: issue where
  "issue_label_lineheight = \<lparr>elementId = utf16 ''1:2'', elementName = utf16 ''Label'',
     issueType = utf16 ''Line Height'', severity = Fail, wcagLevel = AA,
     currentValue = utf16 ''12.0px'', requiredValue = utf16 ''18.0px (1.5x)'',
     suggestion = utf16 ''Increase line height to 18.0px''\<rparr>"

definition example_entry_issues :: cached_analysis where
  "example_entry_issues = \<lparr>timestamp = 1762990000000, version = PLUGIN_VERSION,
     contentHash = utf16 ''jpiaoq'', results = [issue_label_contrast, issue_label_lineheight]\<rparr>"

definition label_group :: issue_group where
  "label_group = \<lparr>group_elementName = utf16 ''Label'', group_elementId = utf16 ''1:2'',
     group_issues = [(issue_label_contrast, 0), (issue_label_lineheight, 1)]\<rparr>"

text \<open>
  Example states, all with \<open>frame_label\<close> selected: nothing cached; the entry with the
  two issues in tier 1; tier 1 empty and a slot that is not JSON; the entry without
  issues in tier 1 and a slot that is not JSON.
\<close>

definition state_fresh :: "nat plugin_state" where
  "state_fresh = \<lparr>analysisCache = Map.empty, pluginData = (\<lambda>id. []),
     selectedFrame = Some frame_label, currentIssues = [], events = []\<rparr>"

definition state_cached :: "nat plugin_state" where
  "state_cached = \<lparr>analysisCache = [utf16 ''1:1'' \<mapsto> example_entry_issues],
     pluginData = (\<lambda>id. []),
     selectedFrame = Some frame_label, currentIssues = [], events = []\<rparr>"

definition state_corrupt :: "nat plugin_state" where
  "state_corrupt = \<lparr>analysisCache = Map.empty,
     pluginData = (\<lambda>id. [])(utf16 ''1:1'' := utf16 ''{oops''),
     selectedFrame = Some frame_label, currentIssues = [], events = []\<rparr>"

definition state_cached_slot_corrupt :: "nat plugin_state" where
  "state_cached_slot_corrupt = \<lparr>analysisCache = [utf16 ''1:1'' \<mapsto> example_entry],
     pluginData = (\<lambda>id. [])(utf16 ''1:1'' := utf16 ''{oops''),
     selectedFrame = Some frame_label, currentIssues = [], events = []\<rparr>"

section \<open>Validity of a cache entry\<close>

text \<open>
  C1. \<open>validate(node, entry)\<close> is true exactly when the entry's age
  \<open>now - entry.createdAt\<close> is at most the TTL of 7 days (604800000 ms), the entry's
  schema version is the current plugin version, and the entry's fingerprint equals the
  fingerprint recomputed from the node's current content.
\<close>

theorem isCacheValid_iff:
  "isCacheValid str now frame cached \<longleftrightarrow>
     now - timestamp cached \<le> 604800000
     \<and> version cached = PLUGIN_VERSION
     \<and> contentHash cached = generateContentHash str frame"
  by (auto simp: isCacheValid_def isExpired_def CACHE_DURATION_def)


section \<open>The fingerprint hashes child count, texts and colours\<close>

lemma pushSolid_eq: "pushSolid str ps colors = colors @ map (colorTriple str) (solidColors ps)"
  by (induction str ps colors rule: pushSolid.induct) simp_all

lemma concat_concat_map: "concat (concat xss) = concat (map concat xss)"
  by (induction xss) simp_all

lemma spec_textLeaves_node:
  "spec_textLeaves (SceneNode i nm t ch fl cs) =
     (if t = TEXT then [SceneNode i nm t ch fl cs] else []) @ concat (map spec_textLeaves cs)"
  unfolding spec_textLeaves_def [abs_def] by (simp add: filter_concat comp_def)

lemma spec_textContents_node:
  "spec_textContents (SceneNode i nm t ch fl cs) =
     (if t = TEXT then [ch] else []) @ concat (map spec_textContents cs)"
  unfolding spec_textContents_def [abs_def]
  by (simp add: spec_textLeaves_node map_concat comp_def)

lemma spec_fillColors_node:
  "spec_fillColors str (SceneNode i nm t ch fl cs) =
     (if t = TEXT
      then (case fl of MIXED \<Rightarrow> [] | PAINTS ps \<Rightarrow> map (colorTriple str) (solidColors ps))
      else []) @ concat (map (spec_fillColors str) cs)"
  unfolding spec_fillColors_def [abs_def]
  by (simp add: spec_textLeaves_node map_concat comp_def concat_concat_map
      spec_solidFillTriples_def)

text \<open>The walk with its accumulator appends the pre-order contents to what it was given.\<close>

lemma walkTexts_eq:
  fixes n :: "'c scene_node" and cs :: "'c scene_node list"
  shows "walkTexts n texts = texts @ spec_textContents n"
    and "walkTextsEach cs texts = texts @ concat (map spec_textContents cs)"
  by (induction n texts and cs texts rule: walkTexts_walkTextsEach.induct)
     (simp_all add: spec_textContents_node)

lemma walkColors_eq:
  fixes n :: "'c scene_node" and cs :: "'c scene_node list"
  shows "walkColors str n colors = colors @ spec_fillColors str n"
    and "walkColorsEach str cs colors = colors @ concat (map (spec_fillColors str) cs)"
  by (induction str n colors and str cs colors rule: walkColors_walkColorsEach.induct)
     (simp_all add: spec_fillColors_node pushSolid_eq split: fills.splits)

lemma collectTextContent_eq: "collectTextContent n = spec_textContents n"
  by (simp add: collectTextContent_def walkTexts_eq)

lemma collectColors_eq: "collectColors str n = spec_fillColors str n"
  by (simp add: collectColors_def walkColors_eq)

subsection \<open>Concrete fingerprints\<close>

text \<open>The code units of four serialised fingerprints, their text and their hashes.\<close>

lemma json_childCount_1:
  "utf16 ''{\"childCount\":1,\"texts\":[],\"colors\":[]}'' =
     [123, 34, 99, 104, 105, 108, 100, 67, 111, 117, 110, 116, 34, 58, 49, 44, 34, 116,
      101, 120, 116, 115, 34, 58, 91, 93, 44, 34, 99, 111, 108, 111, 114, 115, 34, 58, 91,
      93, 125]"
  by (simp add: utf16_def)

lemma json_childCount_2:
  "utf16 ''{\"childCount\":2,\"texts\":[],\"colors\":[]}'' =
     [123, 34, 99, 104, 105, 108, 100, 67, 111, 117, 110, 116, 34, 58, 50, 44, 34, 116,
      101, 120, 116, 115, 34, 58, 91, 93, 44, 34, 99, 111, 108, 111, 114, 115, 34, 58, 91,
      93, 125]"
  by (simp add: utf16_def)

lemma json_frame_label:
  "utf16 ''{\"childCount\":1,\"texts\":[\"Aa\"],\"colors\":[\"0,0,0\"]}'' =
     [123, 34, 99, 104, 105, 108, 100, 67, 111, 117, 110, 116, 34, 58, 49, 44, 34, 116,
      101, 120, 116, 115, 34, 58, 91, 34, 65, 97, 34, 93, 44, 34, 99, 111, 108, 111, 114,
      115, 34, 58, 91, 34, 48, 44, 48, 44, 48, 34, 93, 125]"
  by (simp add: utf16_def)

lemma json_frame_label_BB:
  "utf16 ''{\"childCount\":1,\"texts\":[\"BB\"],\"colors\":[\"0,0,0\"]}'' =
     [123, 34, 99, 104, 105, 108, 100, 67, 111, 117, 110, 116, 34, 58, 49, 44, 34, 116,
      101, 120, 116, 115, 34, 58, 91, 34, 66, 66, 34, 93, 44, 34, 99, 111, 108, 111, 114,
      115, 34, 58, 91, 34, 48, 44, 48, 44, 48, 34, 93, 125]"
  by (simp add: utf16_def)

lemma stringify_childCount_1:
  "stringifyFingerprint 1 [] [] = utf16 ''{\"childCount\":1,\"texts\":[],\"colors\":[]}''"
  by (simp add: stringifyFingerprint_def stringifyStringArray_def QuoteJSONString_def
      quoteUnit_def isLeadingSurrogate_def isTrailingSurrogate_def colorTriple_def
      collectTextContent_def collectColors_def utf16_def toStringRadix.simps digit36_def)

lemma stringify_childCount_2:
  "stringifyFingerprint 2 [] [] = utf16 ''{\"childCount\":2,\"texts\":[],\"colors\":[]}''"
  by (simp add: stringifyFingerprint_def stringifyStringArray_def QuoteJSONString_def
      quoteUnit_def isLeadingSurrogate_def isTrailingSurrogate_def colorTriple_def
      collectTextContent_def collectColors_def utf16_def toStringRadix.simps digit36_def)

lemma stringify_frame_label:
  "fingerprintJSON (toStringRadix 10) frame_label =
     utf16 ''{\"childCount\":1,\"texts\":[\"Aa\"],\"colors\":[\"0,0,0\"]}''"
  by (simp add: frame_label_def fingerprintJSON_def stringifyFingerprint_def stringifyStringArray_def QuoteJSONString_def
      quoteUnit_def isLeadingSurrogate_def isTrailingSurrogate_def colorTriple_def
      collectTextContent_def collectColors_def utf16_def toStringRadix.simps digit36_def)

lemma stringify_frame_label_BB:
  "fingerprintJSON (toStringRadix 10) (setCharacters [0] (utf16 ''BB'') frame_label) =
     utf16 ''{\"childCount\":1,\"texts\":[\"BB\"],\"colors\":[\"0,0,0\"]}''"
  by (simp add: frame_label_def fingerprintJSON_def stringifyFingerprint_def stringifyStringArray_def QuoteJSONString_def
      quoteUnit_def isLeadingSurrogate_def isTrailingSurrogate_def colorTriple_def
      collectTextContent_def collectColors_def utf16_def toStringRadix.simps digit36_def)

lemma simpleHash_childCount_1:
  "simpleHash (utf16 ''{\"childCount\":1,\"texts\":[],\"colors\":[]}'') = utf16 ''6tkxpu''"
  by (simp only: json_childCount_1) (simp add: simpleHash_def hash_step_def toStringRadix.simps digit36_def utf16_def)

lemma simpleHash_childCount_2:
  "simpleHash (utf16 ''{\"childCount\":2,\"texts\":[],\"colors\":[]}'') = utf16 ''rj4v9p''"
  by (simp only: json_childCount_2) (simp add: simpleHash_def hash_step_def toStringRadix.simps digit36_def utf16_def)

lemma simpleHash_frame_label:
  "simpleHash (utf16 ''{\"childCount\":1,\"texts\":[\"Aa\"],\"colors\":[\"0,0,0\"]}'') = utf16 ''jpiaoq''"
  by (simp only: json_frame_label) (simp add: simpleHash_def hash_step_def toStringRadix.simps digit36_def utf16_def)

lemma simpleHash_frame_label_BB:
  "simpleHash (utf16 ''{\"childCount\":1,\"texts\":[\"BB\"],\"colors\":[\"0,0,0\"]}'') = utf16 ''jpiaoq''"
  by (simp only: json_frame_label_BB) (simp add: simpleHash_def hash_step_def toStringRadix.simps digit36_def utf16_def)

text \<open>
  C4. For every frame, the fingerprint is the hash of the serialised triple of (a) the
  number of the frame's direct children, (b) the contents of the text leaves of the
  subtree in depth-first order and (c) the \<open>r,g,b\<close> strings of the solid fills of those
  text leaves in the same order; two frames that agree on this triple have the same
  fingerprint, whatever else differs.
\<close>

theorem generateContentHash_triple:
  "generateContentHash str f1 =
     simpleHash (stringifyFingerprint (length (children f1))
        (spec_textContents f1) (spec_fillColors str f1))
   \<and> (length (children f1) = length (children f2)
        \<and> spec_textContents f1 = spec_textContents f2
        \<and> spec_fillColors str f1 = spec_fillColors str f2
      \<longrightarrow> generateContentHash str f1 = generateContentHash str f2)"
  by (simp add: generateContentHash_def fingerprintJSON_def collectTextContent_eq collectColors_eq)

theorem generateContentHash_triple_witness:
  "length (children frame_label) = length (children frame_label_renamed)
   \<and> spec_textContents frame_label = spec_textContents frame_label_renamed
   \<and> spec_fillColors (toStringRadix 10) frame_label
       = spec_fillColors (toStringRadix 10) frame_label_renamed
   \<and> generateContentHash (toStringRadix 10) frame_label
       = generateContentHash (toStringRadix 10) frame_label_renamed"
proof -
  have a: "length (children frame_label) = length (children frame_label_renamed)"
    by (simp add: frame_label_def frame_label_renamed_def)
  have b: "spec_textContents frame_label = spec_textContents frame_label_renamed"
    by (simp add: frame_label_def frame_label_renamed_def spec_textContents_node)
  have c: "spec_fillColors (toStringRadix 10) frame_label
             = spec_fillColors (toStringRadix 10) frame_label_renamed"
    by (simp add: frame_label_def frame_label_renamed_def spec_fillColors_node)
  from a b c generateContentHash_triple [of "toStringRadix 10" frame_label frame_label_renamed]
  have "generateContentHash (toStringRadix 10) frame_label
          = generateContentHash (toStringRadix 10) frame_label_renamed"
    by blast
  with a b c show ?thesis by blast
qed

text \<open>
  The specification has the total descendant count in place of the child count. Two
  frames with the same descendant count, texts and colours, one with a group holding a
  rectangle and one with two rectangles, get different fingerprints.
\<close>

theorem generateContentHash_descendantCount_counterexample:
  "spec_descendantCount frame_nested = spec_descendantCount frame_flat
   \<and> spec_textContents frame_nested = spec_textContents frame_flat
   \<and> spec_fillColors (toStringRadix 10) frame_nested = spec_fillColors (toStringRadix 10) frame_flat
   \<and> fingerprintJSON (toStringRadix 10) frame_nested
       = utf16 ''{\"childCount\":1,\"texts\":[],\"colors\":[]}''
   \<and> fingerprintJSON (toStringRadix 10) frame_flat
       = utf16 ''{\"childCount\":2,\"texts\":[],\"colors\":[]}''
   \<and> generateContentHash (toStringRadix 10) frame_nested = utf16 ''6tkxpu''
   \<and> generateContentHash (toStringRadix 10) frame_flat = utf16 ''rj4v9p''
   \<and> generateContentHash (toStringRadix 10) frame_nested
       \<noteq> generateContentHash (toStringRadix 10) frame_flat"
proof -
  have d: "spec_descendantCount frame_nested = spec_descendantCount frame_flat"
    by (simp add: frame_nested_def frame_flat_def spec_descendantCount_def)
  have t1: "collectTextContent frame_nested = []" and t2: "collectTextContent frame_flat = []"
    by (simp_all add: frame_nested_def frame_flat_def collectTextContent_def)
  have c1: "collectColors (toStringRadix 10) frame_nested = []"
    and c2: "collectColors (toStringRadix 10) frame_flat = []"
    by (simp_all add: frame_nested_def frame_flat_def collectColors_def)
  have n1: "length (children frame_nested) = 1" and n2: "length (children frame_flat) = 2"
    by (simp_all add: frame_nested_def frame_flat_def)
  have j1: "fingerprintJSON (toStringRadix 10) frame_nested
              = utf16 ''{\"childCount\":1,\"texts\":[],\"colors\":[]}''"
    by (simp only: fingerprintJSON_def t1 c1 n1 stringify_childCount_1)
  have j2: "fingerprintJSON (toStringRadix 10) frame_flat
              = utf16 ''{\"childCount\":2,\"texts\":[],\"colors\":[]}''"
    by (simp only: fingerprintJSON_def t2 c2 n2 stringify_childCount_2)
  have h1: "generateContentHash (toStringRadix 10) frame_nested = utf16 ''6tkxpu''"
    by (simp only: generateContentHash_def j1 simpleHash_childCount_1)
  have h2: "generateContentHash (toStringRadix 10) frame_flat = utf16 ''rj4v9p''"
    by (simp only: generateContentHash_def j2 simpleHash_childCount_2)
  have ne: "utf16 ''6tkxpu'' \<noteq> utf16 ''rj4v9p''"
    by (simp add: utf16_def)
  have tc: "spec_textContents frame_nested = spec_textContents frame_flat"
    "spec_fillColors (toStringRadix 10) frame_nested = spec_fillColors (toStringRadix 10) frame_flat"
    using t1 t2 c1 c2
    by (simp_all add: collectTextContent_eq [symmetric] collectColors_eq [symmetric])
  from h1 h2 ne have "generateContentHash (toStringRadix 10) frame_nested
       \<noteq> generateContentHash (toStringRadix 10) frame_flat"
    by simp
  with d tc j1 j2 h1 h2 show ?thesis by blast
qed


section \<open>Editing a text leaf changes what is hashed\<close>

subsection \<open>The serialisation keeps different text lists apart\<close>

lemma unat_digit36:
  "k < 16 \<Longrightarrow> unat (digit36 k) = (if k < 10 then 48 + k else 87 + k)"
  unfolding digit36_def
  by (simp only: unat_of_nat if_distrib [of unat] cong: if_cong) simp

lemma hexValue_digit36: "k < 16 \<Longrightarrow> hexValue (digit36 k) = k"
  by (simp add: hexValue_def word_le_nat_alt unat_digit36)

lemma hex_digits_sum:
  "4096 * (n div 4096) + 256 * (n div 256 mod 16) + 16 * (n div 16 mod 16) + n mod 16 = (n::nat)"
proof -
  have a: "n mod 256 = 16 * (n div 16 mod 16) + n mod 16"
    using mod_mult2_eq [of n 16 16] by simp
  have b: "n mod 4096 = 256 * (n div 256 mod 16) + n mod 256"
    using mod_mult2_eq [of n 256 16] by simp
  show ?thesis
    by (simp only: add.assoc a [symmetric] b [symmetric] mult_div_mod_eq)
qed

lemma unhex4_hex4:
  assumes h: "hex4 c = [d1, d2, d3, d4]"
  shows "unhex4 d1 d2 d3 d4 = c"
proof -
  have b: "unat c < 65536" using unsigned_less [of c, where ?'a = nat] by simp
  then have b1: "unat c div 4096 < 16" by simp
  from h have d: "d1 = digit36 (unat c div 4096)" "d2 = digit36 (unat c div 256 mod 16)"
    "d3 = digit36 (unat c div 16 mod 16)" "d4 = digit36 (unat c mod 16)"
    by (simp_all add: hex4_def Let_def)
  have "4096 * hexValue d1 + 256 * hexValue d2 + 16 * hexValue d3 + hexValue d4 = unat c"
    unfolding d using b1 by (simp only: hexValue_digit36 hex_digits_sum mod_less_divisor zero_less_numeral)
  then show ?thesis
    by (simp add: unhex4_def)
qed

lemma hex4_length: "\<exists>d1 d2 d3 d4. hex4 c = [d1, d2, d3, d4]"
  by (simp add: hex4_def Let_def)

lemma readBody_UnicodeEscape:
  "readBody (UnicodeEscape c @ t) = consRead c (readBody t)"
proof -
  obtain d1 d2 d3 d4 where h: "hex4 c = [d1, d2, d3, d4]" using hex4_length by blast
  show ?thesis
    by (simp add: UnicodeEscape_def utf16_def h unhex4_hex4 [OF h])
qed

lemma readBody_quoteUnit:
  "readBody (quoteUnit c @ t) = consRead c (readBody t)"
  by (simp add: quoteUnit_def utf16_def readBody_UnicodeEscape unescape_def)

lemma surrogate_not_special:
  "isLeadingSurrogate c \<or> isTrailingSurrogate c \<Longrightarrow> c \<noteq> 0x22 \<and> c \<noteq> 0x5C"
  by (auto simp: isLeadingSurrogate_def isTrailingSurrogate_def)

lemma readBody_quoteBody:
  "readBody (quoteBody s @ 0x22 # r) = Some (s, r)"
proof (induction s rule: quoteBody.induct)
  case 1
  show ?case by simp
next
  case (2 c)
  show ?case
    by (simp add: readBody_UnicodeEscape readBody_quoteUnit consRead_def)
next
  case (3 c d cs)
  then show ?case
    using surrogate_not_special [of c] surrogate_not_special [of d]
    by (simp add: readBody_UnicodeEscape readBody_quoteUnit consRead_def)
qed

lemma joinComma_Cons:
  "joinComma (x # xs) = x @ (case xs of [] \<Rightarrow> [] | y # ys \<Rightarrow> utf16 '','' @ joinComma xs)"
  by (cases xs) simp_all

lemma QuoteJSONString_append:
  "QuoteJSONString s @ t = 0x22 # quoteBody s @ 0x22 # t"
  by (simp add: QuoteJSONString_def utf16_def)

lemma joinComma_Quote_inj:
  "joinComma (map QuoteJSONString xs) = joinComma (map QuoteJSONString ys) \<Longrightarrow> xs = ys"
proof (induction xs arbitrary: ys)
  case Nil
  then show ?case
    by (cases ys) (simp_all add: joinComma_Cons QuoteJSONString_def utf16_def)
next
  case (Cons x xs)
  show ?case
  proof (cases ys)
    case Nil
    with Cons.prems show ?thesis
      by (simp add: joinComma_Cons QuoteJSONString_def utf16_def)
  next
    case (Cons y ys')
    let ?tl = "\<lambda>zs. case map QuoteJSONString zs of [] \<Rightarrow> []
                 | a # as \<Rightarrow> utf16 '','' @ joinComma (map QuoteJSONString zs)"
    from Cons.prems Cons
    have "quoteBody x @ 0x22 # ?tl xs = quoteBody y @ 0x22 # ?tl ys'"
      by (simp add: joinComma_Cons QuoteJSONString_append)
    then have "readBody (quoteBody x @ 0x22 # ?tl xs) = readBody (quoteBody y @ 0x22 # ?tl ys')"
      by simp
    then have xy: "x = y" and tl: "?tl xs = ?tl ys'"
      by (simp_all add: readBody_quoteBody)
    from tl have "joinComma (map QuoteJSONString xs) = joinComma (map QuoteJSONString ys')"
      by (cases xs; cases ys') (simp_all add: utf16_def)
    then have "xs = ys'" by (rule Cons.IH)
    with xy Cons show ?thesis by simp
  qed
qed

lemma stringifyStringArray_inj:
  "stringifyStringArray xs = stringifyStringArray ys \<Longrightarrow> xs = ys"
  by (simp add: stringifyStringArray_def utf16_def joinComma_Quote_inj)

lemma stringifyFingerprint_texts_inj:
  "stringifyFingerprint n xs cs = stringifyFingerprint n ys cs \<Longrightarrow> xs = ys"
  by (simp add: stringifyFingerprint_def stringifyStringArray_inj)

subsection \<open>The edit changes the text list and nothing else of the triple\<close>

lemma length_children_setCharacters:
  "length (children (setCharacters p s n)) = length (children n)"
  by (cases p; cases n) simp_all

lemma spec_fillColors_setCharacters:
  "spec_fillColors str (setCharacters p s n) = spec_fillColors str n"
proof (induction p arbitrary: n)
  case Nil
  show ?case by (cases n) (simp add: spec_fillColors_node)
next
  case (Cons k p)
  obtain i nm t ch fl cs where n: "n = SceneNode i nm t ch fl cs" by (cases n)
  show ?case
  proof (cases "k < length cs")
    case True
    have "map (spec_fillColors str) (cs[k := setCharacters p s (cs ! k)])
            = (map (spec_fillColors str) cs)[k := spec_fillColors str (cs ! k)]"
      by (simp add: map_update Cons.IH)
    also have "\<dots> = map (spec_fillColors str) cs"
      using True by (metis list_update_id map_update)
    finally show ?thesis using True by (simp add: n spec_fillColors_node)
  next
    case False
    then show ?thesis by (simp add: n spec_fillColors_node)
  qed
qed

lemma spec_textContents_setCharacters:
  "nodeAt n p = Some leaf \<Longrightarrow> node_type leaf = TEXT \<Longrightarrow> characters leaf \<noteq> s \<Longrightarrow>
     spec_textContents (setCharacters p s n) \<noteq> spec_textContents n
     \<and> length (spec_textContents (setCharacters p s n)) = length (spec_textContents n)"
proof (induction p arbitrary: n)
  case Nil
  then show ?case by (cases n) (auto simp: spec_textContents_node)
next
  case (Cons k p)
  obtain i nm t ch fl cs where n: "n = SceneNode i nm t ch fl cs" by (cases n)
  from Cons.prems(1) have k: "k < length cs" and at: "nodeAt (cs ! k) p = Some leaf"
    by (auto simp: n split: if_splits)
  let ?c' = "setCharacters p s (cs ! k)"
  from Cons.IH [OF at Cons.prems(2,3)]
  have ne: "spec_textContents ?c' \<noteq> spec_textContents (cs ! k)"
    and len: "length (spec_textContents ?c') = length (spec_textContents (cs ! k))"
    by simp_all
  have old: "cs = take k cs @ (cs ! k) # drop (Suc k) cs"
    using k by (simp add: id_take_nth_drop)
  have new: "cs[k := ?c'] = take k cs @ ?c' # drop (Suc k) cs"
    using k by (simp add: upd_conv_take_nth_drop)
  have c_old: "concat (map spec_textContents cs) =
      concat (map spec_textContents (take k cs)) @ spec_textContents (cs ! k)
        @ concat (map spec_textContents (drop (Suc k) cs))"
    by (subst old) simp
  have c_new: "concat (map spec_textContents (cs[k := ?c'])) =
      concat (map spec_textContents (take k cs)) @ spec_textContents ?c'
        @ concat (map spec_textContents (drop (Suc k) cs))"
    by (subst new) simp
  show ?case
    using k ne len by (simp add: n spec_textContents_node c_old c_new)
qed

text \<open>
  C5. For every frame and every text leaf inside it, replacing the leaf's string content
  by a different string, everything else unchanged, changes the serialised summary
  \<open>JSON.stringify(fingerprint)\<close> that \<open>simpleHash\<close> is applied to. (The fingerprint
  is the 32-bit hash of that string, so it changes unless the two strings collide.)
\<close>

theorem setCharacters_changes_fingerprintJSON:
  "nodeAt n p = Some leaf \<Longrightarrow> node_type leaf = TEXT \<Longrightarrow> characters leaf \<noteq> s \<Longrightarrow>
     fingerprintJSON str (setCharacters p s n) \<noteq> fingerprintJSON str n"
proof -
  assume a: "nodeAt n p = Some leaf" "node_type leaf = TEXT" "characters leaf \<noteq> s"
  from spec_textContents_setCharacters [OF a]
  have "collectTextContent (setCharacters p s n) \<noteq> collectTextContent n"
    by (simp add: collectTextContent_eq)
  then show ?thesis
    unfolding fingerprintJSON_def length_children_setCharacters collectColors_eq
      spec_fillColors_setCharacters
    using stringifyFingerprint_texts_inj by blast
qed

theorem setCharacters_changes_fingerprintJSON_witness:
  "nodeAt frame_label [0]
     = Some (SceneNode (utf16 ''1:2'') (utf16 ''Label'') TEXT (utf16 ''Aa'')
               (PAINTS [SOLID (RGB 0 0 0)]) [])
   \<and> utf16 ''Aa'' \<noteq> utf16 ''BB''
   \<and> fingerprintJSON (toStringRadix 10) (setCharacters [0] (utf16 ''BB'') frame_label)
       \<noteq> fingerprintJSON (toStringRadix 10) frame_label"
proof -
  let ?leaf = "SceneNode (utf16 ''1:2'') (utf16 ''Label'') TEXT (utf16 ''Aa'')
                 (PAINTS [SOLID (RGB (0::nat) 0 0)]) []"
  have a: "nodeAt frame_label [0] = Some ?leaf" by (simp add: frame_label_def)
  have b: "node_type ?leaf = TEXT" by simp
  have c: "utf16 ''Aa'' \<noteq> utf16 ''BB''" by (simp add: utf16_def)
  then have c': "characters ?leaf \<noteq> utf16 ''BB''" by simp
  from setCharacters_changes_fingerprintJSON [OF a b c', of "toStringRadix 10"] a c
  show ?thesis by blast
qed

text \<open>
  The specification promises a different fingerprint. A label reading \<open>Aa\<close> edited to
  \<open>BB\<close> keeps the fingerprint \<open>jpiaoq\<close>: the two serialisations have the same hash.
\<close>

theorem generateContentHash_collision_counterexample:
  "nodeAt frame_label [0]
     = Some (SceneNode (utf16 ''1:2'') (utf16 ''Label'') TEXT (utf16 ''Aa'')
               (PAINTS [SOLID (RGB 0 0 0)]) [])
   \<and> utf16 ''Aa'' \<noteq> utf16 ''BB''
   \<and> fingerprintJSON (toStringRadix 10) frame_label
       = utf16 ''{\"childCount\":1,\"texts\":[\"Aa\"],\"colors\":[\"0,0,0\"]}''
   \<and> fingerprintJSON (toStringRadix 10) (setCharacters [0] (utf16 ''BB'') frame_label)
       = utf16 ''{\"childCount\":1,\"texts\":[\"BB\"],\"colors\":[\"0,0,0\"]}''
   \<and> generateContentHash (toStringRadix 10) frame_label = utf16 ''jpiaoq''
   \<and> generateContentHash (toStringRadix 10) (setCharacters [0] (utf16 ''BB'') frame_label)
       = generateContentHash (toStringRadix 10) frame_label"
proof -
  have a: "nodeAt frame_label [0]
     = Some (SceneNode (utf16 ''1:2'') (utf16 ''Label'') TEXT (utf16 ''Aa'')
               (PAINTS [SOLID (RGB 0 0 0)]) [])"
    by (simp add: frame_label_def)
  have c: "utf16 ''Aa'' \<noteq> utf16 ''BB''" by (simp add: utf16_def)
  have h1: "generateContentHash (toStringRadix 10) frame_label = utf16 ''jpiaoq''"
    by (simp only: generateContentHash_def stringify_frame_label simpleHash_frame_label)
  have h2: "generateContentHash (toStringRadix 10) (setCharacters [0] (utf16 ''BB'') frame_label)
              = utf16 ''jpiaoq''"
    by (simp only: generateContentHash_def stringify_frame_label_BB simpleHash_frame_label_BB)
  from a c h1 h2 stringify_frame_label stringify_frame_label_BB show ?thesis by simp
qed


section \<open>Grouping is a partition by element\<close>

lemma pushUnder_lambda:
  "(\<lambda>(k, ms). if k = key then (k, ms @ [m]) else (k, ms)) = pushUnder key m"
  by (rule ext) auto

subsection \<open>When a round raises\<close>

lemma addToGroup_own:
  "groupKey (fst m) \<notin> set objectPrototypeKeys \<Longrightarrow> addToGroup grouped m = Inr (addOwn grouped m)"
  by (auto simp: addToGroup_def addOwn_def getProperty_def pushUnder_lambda Let_def domIff
      dom_map_of_conv_image_fst [symmetric] split: option.splits)

lemma addToGroup_inherited:
  "groupKey (fst m) \<in> set objectPrototypeKeys \<Longrightarrow> groupKey (fst m) \<notin> fst ` set grouped \<Longrightarrow>
     addToGroup grouped m = Inl TypeError"
  by (auto simp: addToGroup_def getProperty_def Let_def domIff
      dom_map_of_conv_image_fst [symmetric] split: option.splits)

lemma keys_addOwn: "fst ` set (addOwn grouped m) = insert (groupKey (fst m)) (fst ` set grouped)"
proof -
  have "fst ` set (map (pushUnder key m) G) = fst ` set G" for key G
    by (induction G) auto
  then show ?thesis by (auto simp: addOwn_def)
qed

lemma forEachIssue_own:
  "\<forall>m \<in> set ms. groupKey (fst m) \<notin> set objectPrototypeKeys \<Longrightarrow>
     forEachIssue grouped ms = Inr (foldl addOwn grouped ms)"
  by (induction ms arbitrary: grouped) (simp_all add: addToGroup_own)

lemma forEachIssue_inherited:
  "\<exists>m \<in> set ms. groupKey (fst m) \<in> set objectPrototypeKeys \<Longrightarrow>
   fst ` set grouped \<inter> set objectPrototypeKeys = {} \<Longrightarrow>
     forEachIssue grouped ms = Inl TypeError"
proof (induction ms arbitrary: grouped)
  case Nil
  then show ?case by simp
next
  case (Cons m ms)
  show ?case
  proof (cases "groupKey (fst m) \<in> set objectPrototypeKeys")
    case True
    with Cons.prems(2) have "groupKey (fst m) \<notin> fst ` set grouped" by blast
    with True show ?thesis by (simp add: addToGroup_inherited)
  next
    case False
    with Cons.prems(1) have later: "\<exists>m \<in> set ms. groupKey (fst m) \<in> set objectPrototypeKeys"
      by auto
    from False Cons.prems(2)
    have "fst ` set (addOwn grouped m) \<inter> set objectPrototypeKeys = {}"
      by (simp add: keys_addOwn)
    from Cons.IH [OF later this] False show ?thesis by (simp add: addToGroup_own)
  qed
qed

text \<open>
  The inherited names either have no underscore or end in one; the key of an issue on a
  node has one and ends in the last code unit of the id.
\<close>

lemma objectPrototypeKeys_shape:
  "k \<in> set objectPrototypeKeys \<Longrightarrow> 0x5F \<notin> set k \<or> last k = 0x5F"
  by (auto simp: objectPrototypeKeys_def utf16_def)

lemma nodeId_key_not_inherited:
  assumes "nodeIdShaped (elementId i)"
  shows "groupKey i \<notin> set objectPrototypeKeys"
proof
  assume k: "groupKey i \<in> set objectPrototypeKeys"
  from assms have ne: "elementId i \<noteq> []" and no: "0x5F \<notin> set (elementId i)"
    by (simp_all add: nodeIdShaped_def)
  have "0x5F \<in> set (groupKey i)" by (simp add: groupKey_def utf16_def)
  moreover have "last (groupKey i) = last (elementId i)"
    using ne by (simp add: groupKey_def utf16_def)
  moreover have "last (elementId i) \<noteq> 0x5F"
    using ne no last_in_set by metis
  ultimately show False using objectPrototypeKeys_shape [OF k] by simp
qed

subsection \<open>The loop invariant\<close>

lemma fst_pushUnder: "fst (pushUnder key m e) = fst e"
  by (cases e) simp

lemma map_fst_pushUnder: "map fst (map (pushUnder key m) G) = map fst G"
  by (simp add: fst_pushUnder comp_def)

lemma pushUnder_absent: "key \<notin> fst ` set G \<Longrightarrow> map (pushUnder key m) G = G"
  by (induction G) auto

lemma mset_pushUnder:
  "distinct (map fst G) \<Longrightarrow> key \<in> fst ` set G \<Longrightarrow>
     mset (concat (map snd (map (pushUnder key m) G))) = add_mset m (mset (concat (map snd G)))"
proof (induction G)
  case Nil
  then show ?case by simp
next
  case (Cons e G)
  obtain k ms where e: "e = (k, ms)" by (cases e)
  show ?case
  proof (cases "k = key")
    case True
    with Cons.prems e have "key \<notin> fst ` set G" by auto
    then have "map (pushUnder key m) G = G" by (rule pushUnder_absent)
    with True e show ?thesis by simp
  next
    case False
    with Cons.prems e have "key \<in> fst ` set G" "distinct (map fst G)" by auto
    with Cons.IH False e show ?thesis by simp
  qed
qed

lemma grouped_ok_step:
  assumes "grouped_ok G done"
  shows "grouped_ok (addOwn G m) (done @ [m])"
proof -
  let ?key = "groupKey (fst m)"
  let ?G1 = "if ?key \<in> fst ` set G then G else G @ [(?key, [])]"
  from assms have d: "distinct (map fst G)"
    and a: "list_all (\<lambda>e. snd e \<noteq> [] \<and> list_all (\<lambda>m. groupKey (fst m) = fst e) (snd e)) G"
    and s: "mset (concat (map snd G)) = mset done"
    by (simp_all add: grouped_ok_def)
  have d1: "distinct (map fst ?G1)" using d by auto
  have in1: "?key \<in> fst ` set ?G1" by auto
  have s1: "mset (concat (map snd ?G1)) = mset done" using s by simp
  have "mset (concat (map snd (map (pushUnder ?key m) ?G1))) = add_mset m (mset done)"
    using mset_pushUnder [OF d1 in1] s1 by simp
  moreover have "distinct (map fst (map (pushUnder ?key m) ?G1))"
    using d1 by (simp only: map_fst_pushUnder)
  moreover have "list_all (\<lambda>e. snd e \<noteq> [] \<and> list_all (\<lambda>m. groupKey (fst m) = fst e) (snd e))
                   (map (pushUnder ?key m) ?G1)"
    using a by (fastforce simp: list_all_iff split: if_splits)
  ultimately show ?thesis
    by (simp add: grouped_ok_def addOwn_def)
qed

lemma grouped_ok_foldl:
  "grouped_ok G done \<Longrightarrow> grouped_ok (foldl addOwn G ms) (done @ ms)"
proof (induction ms arbitrary: G "done")
  case Nil
  then show ?case by simp
next
  case (Cons m ms)
  from Cons.IH [OF grouped_ok_step [OF Cons.prems, of m]] show ?case by simp
qed

lemma grouped_ok_all: "grouped_ok (foldl addOwn [] ms) ms"
  using grouped_ok_foldl [of "[]" "[]" ms] by (simp add: grouped_ok_def)

lemma toGroups_nonempty:
  "list_all (\<lambda>e. snd e \<noteq> []) G \<Longrightarrow> toGroups G = Inr (map asGroup G)"
proof (induction G)
  case Nil
  show ?case by simp
next
  case (Cons e G)
  then obtain m ms where "snd e = m # ms" by (cases "snd e") auto
  with Cons show ?case by (simp add: toGroup_def asGroup_def)
qed

lemma zip_keys_own:
  "\<forall>i \<in> set issues. groupKey i \<notin> set objectPrototypeKeys \<Longrightarrow>
     \<forall>m \<in> set (zip issues ns). groupKey (fst m) \<notin> set objectPrototypeKeys"
  by (auto dest: set_zip_leftD)

lemma groupIssuesByElement_eq:
  assumes "\<forall>i \<in> set issues. groupKey i \<notin> set objectPrototypeKeys"
  shows "groupIssuesByElement issues =
           Inr (map asGroup (foldl addOwn [] (zip issues [0..<length issues])))"
proof -
  let ?ms = "zip issues [0..<length issues]"
  have "forEachIssue [] ?ms = Inr (foldl addOwn [] ?ms)"
    using zip_keys_own [OF assms] by (rule forEachIssue_own)
  moreover have "toGroups (foldl addOwn [] ?ms) = Inr (map asGroup (foldl addOwn [] ?ms))"
    using grouped_ok_all [of ?ms]
    by (intro toGroups_nonempty) (auto simp: grouped_ok_def list_all_iff)
  ultimately show ?thesis by (simp add: groupIssuesByElement_def)
qed

text \<open>The function raises exactly when the key of some issue is an inherited name.\<close>

lemma groupIssuesByElement_raises_iff:
  "groupIssuesByElement issues = Inl TypeError
     \<longleftrightarrow> (\<exists>i \<in> set issues. groupKey i \<in> set objectPrototypeKeys)"
proof
  assume "groupIssuesByElement issues = Inl TypeError"
  then show "\<exists>i \<in> set issues. groupKey i \<in> set objectPrototypeKeys"
    using groupIssuesByElement_eq [of issues] by auto
next
  assume "\<exists>i \<in> set issues. groupKey i \<in> set objectPrototypeKeys"
  then obtain i where i: "i \<in> set issues" "groupKey i \<in> set objectPrototypeKeys" by blast
  from i(1) obtain k where "k < length issues" "issues ! k = i" by (auto simp: in_set_conv_nth)
  then have "(i, k) \<in> set (zip issues [0..<length issues])"
    by (auto simp: in_set_zip)
  with i(2) have "\<exists>m \<in> set (zip issues [0..<length issues]).
                     groupKey (fst m) \<in> set objectPrototypeKeys"
    by force
  then have "forEachIssue [] (zip issues [0..<length issues]) = Inl TypeError"
    by (rule forEachIssue_inherited) simp
  then show "groupIssuesByElement issues = Inl TypeError"
    by (simp add: groupIssuesByElement_def)
qed

text \<open>Otherwise every issue, with its position, is in the groups once.\<close>

lemma groupIssuesByElement_keeps_issues:
  assumes "\<forall>i \<in> set issues. nodeIdShaped (elementId i)"
  shows "\<exists>groups. groupIssuesByElement issues = Inr groups
           \<and> mset (concat (map group_issues groups)) = mset (zip issues [0..<length issues])
           \<and> mset (map fst (concat (map group_issues groups))) = mset issues"
proof -
  let ?ms = "zip issues [0..<length issues]"
  let ?G = "foldl addOwn [] ?ms"
  from assms have "\<forall>i \<in> set issues. groupKey i \<notin> set objectPrototypeKeys"
    by (simp add: nodeId_key_not_inherited)
  then have g: "groupIssuesByElement issues = Inr (map asGroup ?G)"
    by (rule groupIssuesByElement_eq)
  have s: "mset (concat (map snd ?G)) = mset ?ms"
    using grouped_ok_all [of ?ms] by (simp add: grouped_ok_def)
  have issues_eq: "map group_issues (map asGroup ?G) = map snd ?G"
    by (simp add: asGroup_def comp_def)
  have m: "mset (concat (map group_issues (map asGroup ?G))) = mset ?ms"
    using s by (simp only: issues_eq)
  then have "image_mset fst (mset (concat (map group_issues (map asGroup ?G))))
               = image_mset fst (mset ?ms)"
    by simp
  then have "mset (map fst (concat (map group_issues (map asGroup ?G)))) = mset (map fst ?ms)"
    by (simp only: mset_map)
  moreover have "map fst ?ms = issues" by (simp add: map_fst_zip)
  ultimately show ?thesis using g m by auto
qed

lemma first_occurrence_unique:
  "x \<notin> set p \<Longrightarrow> x \<notin> set q \<Longrightarrow> p @ x # r = q @ x # s \<Longrightarrow> p = q \<and> r = s"
proof (induction p arbitrary: q)
  case Nil
  then show ?case by (cases q) auto
next
  case (Cons y p)
  then show ?case by (cases q) auto
qed

lemma key_split_unique:
  assumes "a @ x # b = c @ x # d" "x \<notin> set b" "x \<notin> set d"
  shows "a = c \<and> b = d"
proof -
  from assms(1) have "rev (a @ x # b) = rev (c @ x # d)" by simp
  then have "rev b @ x # rev a = rev d @ x # rev c" by simp
  moreover have "x \<notin> set (rev b)" "x \<notin> set (rev d)" using assms(2,3) by simp_all
  ultimately have "rev b = rev d \<and> rev a = rev c"
    by (intro first_occurrence_unique)
  then show ?thesis by simp
qed

lemma distinct_pairs_of_keys:
  "distinct (map (\<lambda>x. f x @ u @ g x) xs) \<Longrightarrow> distinct (map (\<lambda>x. (f x, g x)) xs)"
  by (induction xs) force+

lemma upt_2: "[0..<2] = [0, Suc 0]"
  by (simp add: upt_rec)

lemma upt_3: "[0..<3] = [0, Suc 0, 2]"
  by (simp add: upt_rec numeral_3_eq_3 numeral_2_eq_2)

subsection \<open>Example groupings\<close>

lemma groupKey_examples:
  "groupKey issue_ab_c = utf16 ''a_b_c''" "groupKey issue_a_bc = utf16 ''a_b_c''"
  "groupKey issue_proto = utf16 ''__proto__''"
  "groupKey issue_title_contrast = utf16 ''Title_1:2''"
  "groupKey issue_title_lineheight = utf16 ''Title_1:2''"
  "groupKey issue_body_spacing = utf16 ''Body_1:3''"
  "groupKey issue_label_contrast = utf16 ''Label_1:2''"
  "groupKey issue_label_lineheight = utf16 ''Label_1:2''"
  by (simp_all add: groupKey_def issue_ab_c_def issue_a_bc_def issue_proto_def
      issue_title_contrast_def issue_body_spacing_def issue_title_lineheight_def
      issue_label_contrast_def issue_label_lineheight_def utf16_def)

lemma example_keys_own:
  "utf16 ''a_b_c'' \<notin> set objectPrototypeKeys"
  "utf16 ''Title_1:2'' \<notin> set objectPrototypeKeys"
  "utf16 ''Body_1:3'' \<notin> set objectPrototypeKeys"
  "utf16 ''Label_1:2'' \<notin> set objectPrototypeKeys"
  "utf16 ''__proto__'' \<in> set objectPrototypeKeys"
  by (simp_all add: objectPrototypeKeys_def utf16_def)

lemma groupIssuesByElement_titles:
  "groupIssuesByElement [issue_title_contrast, issue_body_spacing, issue_title_lineheight] =
     Inr [\<lparr>group_elementName = utf16 ''Title'', group_elementId = utf16 ''1:2'',
           group_issues = [(issue_title_contrast, 0), (issue_title_lineheight, 2)]\<rparr>,
          \<lparr>group_elementName = utf16 ''Body'', group_elementId = utf16 ''1:3'',
           group_issues = [(issue_body_spacing, 1)]\<rparr>]"
proof -
  have names: "elementName issue_title_contrast = utf16 ''Title''"
    "elementId issue_title_contrast = utf16 ''1:2''"
    "elementName issue_body_spacing = utf16 ''Body''"
    "elementId issue_body_spacing = utf16 ''1:3''"
    by (simp_all add: issue_title_contrast_def issue_body_spacing_def)
  have ne: "utf16 ''Title_1:2'' \<noteq> utf16 ''Body_1:3''" by (simp add: utf16_def)
  show ?thesis
    using ne
    by (simp add: groupIssuesByElement_def upt_3 addToGroup_def getProperty_def
        groupKey_examples example_keys_own toGroup_def names)
qed

lemma groupIssuesByElement_label:
  "groupIssuesByElement [issue_label_contrast, issue_label_lineheight] = Inr [label_group]"
proof -
  have names: "elementName issue_label_contrast = utf16 ''Label''"
    "elementId issue_label_contrast = utf16 ''1:2''"
    by (simp_all add: issue_label_contrast_def)
  show ?thesis
    by (simp add: groupIssuesByElement_def upt_2 addToGroup_def getProperty_def
        groupKey_examples example_keys_own toGroup_def names label_group_def)
qed

text \<open>
  Ids that are no node ids. Two issues named \<open>a_b\<close> with id \<open>c\<close> and named \<open>a\<close> with id
  \<open>b_c\<close> land in one group, reported as \<open>a_b\<close> / \<open>c\<close>; an issue named \<open>__proto_\<close> with an
  empty id makes the function raise.
\<close>

lemma groupIssuesByElement_shared_key:
  "groupIssuesByElement [issue_ab_c, issue_a_bc] =
     Inr [\<lparr>group_elementName = utf16 ''a_b'', group_elementId = utf16 ''c'',
           group_issues = [(issue_ab_c, 0), (issue_a_bc, 1)]\<rparr>]"
proof -
  have names: "elementName issue_ab_c = utf16 ''a_b''" "elementId issue_ab_c = utf16 ''c''"
    by (simp_all add: issue_ab_c_def)
  show ?thesis
    by (simp add: groupIssuesByElement_def upt_2 addToGroup_def getProperty_def
        groupKey_examples example_keys_own toGroup_def names)
qed

lemma groupIssuesByElement_inherited_key:
  "groupIssuesByElement [issue_title_contrast, issue_proto] = Inl TypeError"
proof -
  have ne: "utf16 ''__proto__'' \<noteq> utf16 ''Title_1:2''" by (simp add: utf16_def)
  show ?thesis
    using ne
    by (simp add: groupIssuesByElement_def upt_2 addToGroup_def getProperty_def Let_def
        groupKey_examples example_keys_own)
qed

subsection \<open>Issues on nodes\<close>

text \<open>
  C10. For every list of issues on nodes, \<open>groupIssuesByElement\<close> returns groups that
  partition the input: every input issue (with its position) is a member of exactly one
  group; no two groups report the same \<open>elementName\<close> and \<open>elementId\<close>; no group is
  empty, and a group reports the \<open>elementName\<close> and \<open>elementId\<close> of its first member;
  these are the \<open>elementName\<close> and \<open>elementId\<close> of every member of the group; and the
  group sizes add up to the length of the input.
\<close>

theorem groupIssuesByElement_partition:
  assumes "\<forall>i \<in> set issues. nodeIdShaped (elementId i)"
  shows "\<exists>groups. groupIssuesByElement issues = Inr groups
     \<and> mset (concat (map group_issues groups)) = mset (zip issues [0..<length issues])
     \<and> distinct (map (\<lambda>g. (group_elementName g, group_elementId g)) groups)
     \<and> (\<forall>g \<in> set groups. group_issues g \<noteq> []
           \<and> group_elementName g = elementName (fst (hd (group_issues g)))
           \<and> group_elementId g = elementId (fst (hd (group_issues g))))
     \<and> (\<forall>g \<in> set groups. \<forall>m \<in> set (group_issues g).
           elementName (fst m) = group_elementName g \<and> elementId (fst m) = group_elementId g)
     \<and> sum_list (map (\<lambda>g. length (group_issues g)) groups) = length issues"
proof -
  let ?ms = "zip issues [0..<length issues]"
  let ?G = "foldl addOwn [] ?ms"
  let ?groups = "map asGroup ?G"
  let ?key = "\<lambda>g. group_elementName g @ utf16 ''_'' @ group_elementId g"
  from assms have ids: "\<forall>i \<in> set issues. 0x5F \<notin> set (elementId i)"
    by (simp add: nodeIdShaped_def)
  from assms have own: "\<forall>i \<in> set issues. groupKey i \<notin> set objectPrototypeKeys"
    by (simp add: nodeId_key_not_inherited)
  have ok: "grouped_ok ?G ?ms" by (rule grouped_ok_all)
  then have d: "distinct (map fst ?G)"
    and a: "\<forall>e \<in> set ?G. snd e \<noteq> [] \<and> (\<forall>m \<in> set (snd e). groupKey (fst m) = fst e)"
    and s: "mset (concat (map snd ?G)) = mset ?ms"
    by (simp_all add: grouped_ok_def list_all_iff)
  have issues_eq: "map group_issues ?groups = map snd ?G"
    by (simp add: asGroup_def comp_def)
  have key: "?key (asGroup e) = fst e" if "e \<in> set ?G" for e
  proof -
    from a that have "snd e \<noteq> []" "\<forall>m \<in> set (snd e). groupKey (fst m) = fst e" by auto
    then have "groupKey (fst (hd (snd e))) = fst e" by simp
    then show ?thesis by (simp add: asGroup_def groupKey_def)
  qed
  have keys: "map ?key ?groups = map fst ?G"
    using key by (simp add: comp_def)
  have p1: "groupIssuesByElement issues = Inr ?groups"
    using own by (rule groupIssuesByElement_eq)
  have p2: "mset (concat (map group_issues ?groups)) = mset ?ms"
    using s by (simp only: issues_eq)
  have dk: "distinct (map ?key ?groups)"
    using d by (simp only: keys)
  have p3: "distinct (map (\<lambda>g. (group_elementName g, group_elementId g)) ?groups)"
    using dk by (rule distinct_pairs_of_keys)
  have p4: "\<forall>g \<in> set ?groups. group_issues g \<noteq> []
           \<and> group_elementName g = elementName (fst (hd (group_issues g)))
           \<and> group_elementId g = elementId (fst (hd (group_issues g)))"
    using a by (auto simp: asGroup_def)
  have k4: "\<forall>g \<in> set ?groups. \<forall>m \<in> set (group_issues g). groupKey (fst m) = ?key g"
  proof (intro ballI)
    fix g m assume "g \<in> set ?groups" "m \<in> set (group_issues g)"
    then obtain e where e: "e \<in> set ?G" "g = asGroup e" by auto
    with \<open>m \<in> set (group_issues g)\<close> have "m \<in> set (snd e)" by (simp add: asGroup_def)
    with a e have "groupKey (fst m) = fst e" by auto
    with key [OF e(1)] e(2) show "groupKey (fst m) = ?key g"
      by simp
  qed
  have "length (concat (map group_issues ?groups)) = length ?ms"
    using p2 by (metis size_mset)
  then have p6: "sum_list (map (\<lambda>g. length (group_issues g)) ?groups) = length issues"
    by (simp add: length_concat comp_def)
  have p5: "\<forall>g \<in> set ?groups. \<forall>m \<in> set (group_issues g).
             elementName (fst m) = group_elementName g \<and> elementId (fst m) = group_elementId g"
  proof (intro ballI)
    fix g m assume g: "g \<in> set ?groups" and m: "m \<in> set (group_issues g)"
    then obtain e where e: "e \<in> set ?G" "g = asGroup e" by auto
    from a e(1) have ne: "snd e \<noteq> []" by auto
    let ?f = "hd (snd e)"
    have f: "?f \<in> set (group_issues g)" using ne e(2) by (simp add: asGroup_def)
    have mem: "set (group_issues g) \<subseteq> set ?ms"
    proof -
      have "set (group_issues g) \<subseteq> set (concat (map group_issues ?groups))" using g by auto
      also have "\<dots> = set ?ms" using p2 by (metis set_mset_mset)
      finally show ?thesis .
    qed
    have in_issues: "fst y \<in> set issues" if "y \<in> set (group_issues g)" for y
    proof -
      from that mem have "y \<in> set ?ms" by blast
      then show ?thesis by (metis set_zip_leftD prod.collapse)
    qed
    from k4 g m have "groupKey (fst m) = ?key g" by blast
    moreover from k4 g f have "groupKey (fst ?f) = ?key g" by blast
    ultimately have "groupKey (fst m) = groupKey (fst ?f)" by simp
    then have "elementName (fst m) @ 0x5F # elementId (fst m)
               = elementName (fst ?f) @ 0x5F # elementId (fst ?f)"
      by (simp add: groupKey_def utf16_def)
    from key_split_unique [OF this] ids in_issues [OF m] in_issues [OF f]
    have "elementName (fst m) = elementName (fst ?f) \<and> elementId (fst m) = elementId (fst ?f)"
      by blast
    then show "elementName (fst m) = group_elementName g \<and> elementId (fst m) = group_elementId g"
      using e(2) by (simp add: asGroup_def)
  qed
  from p1 p2 p3 p4 p5 p6 show ?thesis by blast
qed

theorem groupIssuesByElement_partition_witness:
  "nodeIdShaped (elementId issue_title_contrast)
   \<and> nodeIdShaped (elementId issue_body_spacing)
   \<and> nodeIdShaped (elementId issue_title_lineheight)
   \<and> groupIssuesByElement [issue_title_contrast, issue_body_spacing, issue_title_lineheight] =
       Inr [\<lparr>group_elementName = utf16 ''Title'', group_elementId = utf16 ''1:2'',
             group_issues = [(issue_title_contrast, 0), (issue_title_lineheight, 2)]\<rparr>,
            \<lparr>group_elementName = utf16 ''Body'', group_elementId = utf16 ''1:3'',
             group_issues = [(issue_body_spacing, 1)]\<rparr>]
   \<and> elementName issue_title_lineheight = utf16 ''Title''
   \<and> elementId issue_title_lineheight = utf16 ''1:2''"
proof -
  let ?issues = "[issue_title_contrast, issue_body_spacing, issue_title_lineheight]"
  let ?g1 = "\<lparr>group_elementName = utf16 ''Title'', group_elementId = utf16 ''1:2'',
               group_issues = [(issue_title_contrast, 0), (issue_title_lineheight, 2)]\<rparr>"
  let ?g2 = "\<lparr>group_elementName = utf16 ''Body'', group_elementId = utf16 ''1:3'',
               group_issues = [(issue_body_spacing, 1::nat)]\<rparr>"
  have ids: "nodeIdShaped (elementId issue_title_contrast)"
    "nodeIdShaped (elementId issue_body_spacing)"
    "nodeIdShaped (elementId issue_title_lineheight)"
    by (simp_all add: nodeIdShaped_def issue_title_contrast_def issue_body_spacing_def
        issue_title_lineheight_def utf16_def)
  then have all_ids: "\<forall>i \<in> set ?issues. nodeIdShaped (elementId i)" by simp
  from groupIssuesByElement_partition [OF all_ids]
  obtain groups where g: "groupIssuesByElement ?issues = Inr groups"
    and imp: "\<forall>g \<in> set groups. \<forall>m \<in> set (group_issues g).
             elementName (fst m) = group_elementName g \<and> elementId (fst m) = group_elementId g"
    by blast
  from g groupIssuesByElement_titles have "groups = [?g1, ?g2]" by simp
  with imp
  have "\<forall>g \<in> set [?g1, ?g2]. \<forall>m \<in> set (group_issues g).
          elementName (fst m) = group_elementName g \<and> elementId (fst m) = group_elementId g"
    by blast
  then have "elementName issue_title_lineheight = utf16 ''Title''
             \<and> elementId issue_title_lineheight = utf16 ''1:2''"
    by simp
  with ids groupIssuesByElement_titles show ?thesis by blast
qed

section \<open>The background colour lookup\<close>

lemma getBackgroundColor_step:
  "getBackgroundColor (parent # ancestors) =
     (case firstFillColor parent of Some c \<Rightarrow> c | None \<Rightarrow> getBackgroundColor ancestors)"
  by (cases "(parent # ancestors)" rule: getBackgroundColor.cases) auto

lemma firstFillColor_no_solid:
  "ancestorSolidFills parent = [] \<Longrightarrow> firstFillColor parent = None"
  by (cases parent rule: firstFillColor.cases) auto

lemma getBackgroundColor_map_filter:
  "getBackgroundColor ancestors =
     (case List.map_filter firstFillColor ancestors of [] \<Rightarrow> RGB 1 1 1 | c # others \<Rightarrow> c)"
  by (induction ancestors)
     (simp_all add: getBackgroundColor_step List.map_filter_simps split: option.splits)

lemma getBackgroundColor_white:
  "\<forall>parent \<in> set ancestors. ancestorSolidFills parent = [] \<Longrightarrow>
     getBackgroundColor ancestors = RGB 1 1 1"
  by (induction ancestors) (simp_all add: getBackgroundColor_step firstFillColor_no_solid)

text \<open>
  C9. For every scene node, the background-colour lookup walks the ancestor chain and
  returns the colour of the first fill of the nearest ancestor whose first fill is solid;
  when no ancestor has a solid first fill, in particular for every node with no
  solid-filled ancestor, it returns opaque white \<open>{r:1, g:1, b:1}\<close>. The lookup always
  returns a colour, so a contrast check never lacks a background.
\<close>

theorem getBackgroundColor_first_fill:
  "getBackgroundColor ancestors =
     (case List.map_filter firstFillColor ancestors of [] \<Rightarrow> RGB 1 1 1 | c # others \<Rightarrow> c)
   \<and> ((\<forall>parent \<in> set ancestors. ancestorSolidFills parent = []) \<longrightarrow>
        getBackgroundColor ancestors = RGB 1 1 1)"
  using getBackgroundColor_map_filter [of ancestors] getBackgroundColor_white [of ancestors]
  by blast

theorem getBackgroundColor_first_fill_witness:
  "ancestorSolidFills (Some (PAINTS [GRADIENT])) = ([] :: nat rgb list)
   \<and> ancestorSolidFills (Some MIXED) = ([] :: nat rgb list)
   \<and> ancestorSolidFills None = ([] :: nat rgb list)
   \<and> getBackgroundColor [Some (PAINTS [GRADIENT]), Some MIXED, None] = RGB 1 1 (1::nat)"
proof -
  let ?ancestors = "[Some (PAINTS [GRADIENT]), Some MIXED, None] :: nat fills option list"
  have h: "\<forall>parent \<in> set ?ancestors. ancestorSolidFills parent = []" by simp
  from getBackgroundColor_first_fill [of ?ancestors] h
  have "getBackgroundColor ?ancestors = RGB 1 1 1" by blast
  then show ?thesis by simp
qed

text \<open>
  The specification has the lookup return the first ancestor's first solid fill. An ancestor filled
  with a gradient below a solid red has a solid fill, yet the lookup reads only
  \<open>fills[0]\<close>, passes the ancestor by and returns white.
\<close>

theorem getBackgroundColor_later_solid_counterexample:
  "getBackgroundColor [Some (PAINTS [GRADIENT, SOLID (RGB 1 0 0)])] = RGB 1 1 (1::nat)
   \<and> spec_backgroundColor [Some (PAINTS [GRADIENT, SOLID (RGB 1 0 0)])] = RGB 1 0 (0::nat)"
  by simp


section \<open>Change detection in the remote store\<close>

text \<open>
  C7. For every node id and every pair of fingerprint strings, \<open>detectChange\<close> returns
  true and appends exactly one new unresolved change record (for that node, with the two
  fingerprints) when the fingerprints differ as strings, and returns false and leaves
  the change store as it is when they are equal.
\<close>

theorem detectFrameChange_effect:
  "(previousHash \<noteq> currentHash \<longrightarrow>
      detect_frame_change uuid now frameId previousHash currentHash frame_changes =
        (True, frame_changes @
           [\<lparr>change_id = uuid, change_frame_id = frameId, previous_hash = previousHash,
             current_hash = currentHash, change_detected_at = now, is_resolved = False,
             change_created_at = now\<rparr>])
      \<and> detectFrameChange Delivered uuid now frameId previousHash currentHash frame_changes =
        (Inr True, frame_changes @
           [\<lparr>change_id = uuid, change_frame_id = frameId, previous_hash = previousHash,
             current_hash = currentHash, change_detected_at = now, is_resolved = False,
             change_created_at = now\<rparr>]))
   \<and> (previousHash = currentHash \<longrightarrow>
      detect_frame_change uuid now frameId previousHash currentHash frame_changes =
        (False, frame_changes)
      \<and> detectFrameChange Delivered uuid now frameId previousHash currentHash frame_changes =
        (Inr False, frame_changes))"
  by (simp add: detect_frame_change_def detectFrameChange_def)

theorem detectFrameChange_effect_witness:
  "utf16 ''6tkxpu'' \<noteq> utf16 ''rj4v9p''
   \<and> detectFrameChange Delivered 7 1763000000000 (utf16 ''1:1'')
        (utf16 ''6tkxpu'') (utf16 ''rj4v9p'') [] =
       (Inr True,
        [\<lparr>change_id = 7, change_frame_id = utf16 ''1:1'', previous_hash = utf16 ''6tkxpu'',
          current_hash = utf16 ''rj4v9p'', change_detected_at = 1763000000000,
          is_resolved = False, change_created_at = 1763000000000\<rparr>])
   \<and> detectFrameChange Delivered 7 1763000000000 (utf16 ''1:1'')
        (utf16 ''6tkxpu'') (utf16 ''6tkxpu'') [] = (Inr False, [])"
proof -
  have ne: "utf16 ''6tkxpu'' \<noteq> utf16 ''rj4v9p''" by (simp add: utf16_def)
  from detectFrameChange_effect [of "utf16 ''6tkxpu''" "utf16 ''rj4v9p''" 7 1763000000000
      "utf16 ''1:1''" "[]"] ne
  have a: "detectFrameChange Delivered 7 1763000000000 (utf16 ''1:1'')
        (utf16 ''6tkxpu'') (utf16 ''rj4v9p'') [] =
       (Inr True,
        [\<lparr>change_id = 7, change_frame_id = utf16 ''1:1'', previous_hash = utf16 ''6tkxpu'',
          current_hash = utf16 ''rj4v9p'', change_detected_at = 1763000000000,
          is_resolved = False, change_created_at = 1763000000000\<rparr>])"
    by simp
  from detectFrameChange_effect [of "utf16 ''6tkxpu''" "utf16 ''6tkxpu''" 7 1763000000000
      "utf16 ''1:1''" "[]"]
  have b: "detectFrameChange Delivered 7 1763000000000 (utf16 ''1:1'')
        (utf16 ''6tkxpu'') (utf16 ''6tkxpu'') [] = (Inr False, [])"
    by simp
  from ne a b show ?thesis by blast
qed




section \<open>The local cache store and the coordinator\<close>

subsection \<open>Lookups\<close>

lemma getCachedAnalysis_corrupt:
  "analysisCache s (node_id frame) = None \<Longrightarrow> pluginData s (node_id frame) \<noteq> [] \<Longrightarrow>
   JSON_parse h (pluginData s (node_id frame)) = SyntaxError \<Longrightarrow>
     getCachedAnalysis h frame s = (None, emit ConsoleError s)"
  by (simp add: getCachedAnalysis_def)

lemma events_emit: "events (emit e s) = events s @ [e]"
  by (simp add: emit_def)

lemma emit_fields:
  "analysisCache (emit e s) = analysisCache s" "pluginData (emit e s) = pluginData s"
  "selectedFrame (emit e s) = selectedFrame s" "currentIssues (emit e s) = currentIssues s"
  by (simp_all add: emit_def)

text \<open>A lookup that finds a valid entry returns it and sends nothing.\<close>

lemma getCachedAnalysis_hit:
  assumes "analysisCache s (node_id frame) = Some cached
           \<or> (analysisCache s (node_id frame) = None \<and> pluginData s (node_id frame) \<noteq> []
               \<and> JSON_parse h (pluginData s (node_id frame)) = Entry cached)"
    and "isCacheValid (numberToString h) (Date_now h) frame cached"
  shows "getCachedAnalysis h frame s =
           (Some cached, s\<lparr>analysisCache := (analysisCache s)(node_id frame \<mapsto> cached)\<rparr>)"
  using assms
  by (auto simp: getCachedAnalysis_def validateOrClear_def map_upd_triv)

text \<open>The converse: an entry is returned only if it was found in a tier and is valid.\<close>

lemma getCachedAnalysis_Some:
  assumes "fst (getCachedAnalysis h frame s) = Some cached"
  shows "(analysisCache s (node_id frame) = Some cached
           \<or> (analysisCache s (node_id frame) = None \<and> pluginData s (node_id frame) \<noteq> []
               \<and> JSON_parse h (pluginData s (node_id frame)) = Entry cached))
         \<and> isCacheValid (numberToString h) (Date_now h) frame cached"
  using assms
  by (auto simp: getCachedAnalysis_def validateOrClear_def Let_def
      split: option.splits if_splits parsed.splits)

text \<open>A lookup that returns nothing leaves each slot as it was or empty.\<close>

lemma getCachedAnalysis_None:
  assumes "fst (getCachedAnalysis h frame s) = None"
  shows "(\<forall>nid. (analysisCache (snd (getCachedAnalysis h frame s)) nid = analysisCache s nid
                \<or> analysisCache (snd (getCachedAnalysis h frame s)) nid = None)
              \<and> (pluginData (snd (getCachedAnalysis h frame s)) nid = pluginData s nid
                \<or> pluginData (snd (getCachedAnalysis h frame s)) nid = []))
         \<and> selectedFrame (snd (getCachedAnalysis h frame s)) = selectedFrame s
         \<and> (events (snd (getCachedAnalysis h frame s)) = events s
            \<or> events (snd (getCachedAnalysis h frame s)) = events s @ [ConsoleError])"
  using assms
  by (auto simp: getCachedAnalysis_def validateOrClear_def clearFrameCache_def emit_def Let_def
      split: option.splits if_splits parsed.splits)


lemma servedFromCache_events:
  assumes "groupIssuesByElement (results cached) = Inr groupedIssues"
  shows "\<exists>rest. events (tryCatch (servedFromCache h msg frame cached s)) =
             events s @ PostMessage (AnalysisComplete groupedIssues (length (results cached)) True
                 (Some (getCacheAge (Date_now h) (timestamp cached)))) # rest
           \<and> filter isDriverOrRemote rest = []"
  using assms
  by (simp add: servedFromCache_def Let_def events_emit catchAnalysisError_def
      split: option.splits)

lemma onAnalyze_hit_unfold:
  assumes "selectedFrame s = Some frame" and "\<not> forceReanalyze msg"
    and "analysisCache s (node_id frame) = Some cached
           \<or> (analysisCache s (node_id frame) = None \<and> pluginData s (node_id frame) \<noteq> []
               \<and> JSON_parse h (pluginData s (node_id frame)) = Entry cached)"
    and "isCacheValid (numberToString h) (Date_now h) frame cached"
  shows "onAnalyze h msg s =
           tryCatch (servedFromCache h msg frame cached
             (s\<lparr>analysisCache := (analysisCache s)(node_id frame \<mapsto> cached)\<rparr>))"
proof -
  let ?s1 = "s\<lparr>analysisCache := (analysisCache s)(node_id frame \<mapsto> cached)\<rparr>"
  have g: "getCachedAnalysis h frame s = (Some cached, ?s1)"
    using assms(3,4) by (rule getCachedAnalysis_hit)
  show ?thesis using assms(1,2) by (simp add: onAnalyze_def g)
qed


lemma onAnalyze_cache_hit:
  assumes "selectedFrame s = Some frame" and "\<not> forceReanalyze msg"
    and "analysisCache s (node_id frame) = Some cached
           \<or> (analysisCache s (node_id frame) = None \<and> pluginData s (node_id frame) \<noteq> []
               \<and> JSON_parse h (pluginData s (node_id frame)) = Entry cached)"
    and "isCacheValid (numberToString h) (Date_now h) frame cached"
    and "\<forall>i \<in> set (results cached). nodeIdShaped (elementId i)"
  shows "\<exists>groupedIssues rest.
           groupIssuesByElement (results cached) = Inr groupedIssues
           \<and> mset (map fst (concat (map group_issues groupedIssues))) = mset (results cached)
           \<and> events (onAnalyze h msg s) =
               events s @ PostMessage (AnalysisComplete groupedIssues (length (results cached)) True
                  (Some (getCacheAge (Date_now h) (timestamp cached)))) # rest
           \<and> filter isDriverOrRemote rest = []"
proof -
  let ?s1 = "s\<lparr>analysisCache := (analysisCache s)(node_id frame \<mapsto> cached)\<rparr>"
  from groupIssuesByElement_keeps_issues [OF assms(5)]
  obtain groupedIssues where g: "groupIssuesByElement (results cached) = Inr groupedIssues"
    and m: "mset (map fst (concat (map group_issues groupedIssues))) = mset (results cached)"
    by blast
  from servedFromCache_events [OF g, where h = h and msg = msg and frame = frame and s = ?s1]
  obtain rest where
    "events (tryCatch (servedFromCache h msg frame cached ?s1)) =
       events ?s1 @ PostMessage (AnalysisComplete groupedIssues (length (results cached)) True
         (Some (getCacheAge (Date_now h) (timestamp cached)))) # rest"
    and r: "filter isDriverOrRemote rest = []"
    by blast
  then have "events (onAnalyze h msg s) =
       events s @ PostMessage (AnalysisComplete groupedIssues (length (results cached)) True
         (Some (getCacheAge (Date_now h) (timestamp cached)))) # rest"
    by (simp add: onAnalyze_hit_unfold [OF assms(1-4)])
  with g m r show ?thesis by blast
qed

lemma freshAnalysis_raised:
  "analyzeFrame h frame (msg_checks msg) = Raised err pushed \<Longrightarrow>
     freshAnalysis h msg frame s =
       (Some err, s\<lparr>currentIssues := pushed,
                     events := events s @ [ClearOverlays,
                       PostMessage (AnalysisProgress 0 (countElements frame)), RunAnalysis]\<rparr>)"
  by (simp add: freshAnalysis_def Let_def emit_def)

lemma onAnalyze_driver_raised:
  assumes "selectedFrame s = Some frame"
    and "analyzeFrame h frame (msg_checks msg) = Raised err pushed"
    and "forceReanalyze msg \<or> fst (getCachedAnalysis h frame s) = None"
  shows "onAnalyze h msg s =
           catchAnalysisError err
             ((if forceReanalyze msg then s else snd (getCachedAnalysis h frame s))
                \<lparr>currentIssues := pushed,
                 events := events (if forceReanalyze msg then s else snd (getCachedAnalysis h frame s))
                    @ [ClearOverlays, PostMessage (AnalysisProgress 0 (countElements frame)),
                       RunAnalysis]\<rparr>)"
  using assms
  by (cases "getCachedAnalysis h frame s")
     (auto simp: onAnalyze_def freshAnalysis_raised)


subsection \<open>Example facts\<close>

lemma oops_not_json: "utf16 ''{oops'' \<noteq> stringifyEntryNoResults example_entry"
  by (simp add: stringifyEntryNoResults_def utf16_def)

lemma node_id_frame_label: "node_id frame_label = utf16 ''1:1''"
  by (simp add: frame_label_def)

lemma state_corrupt_facts:
  "analysisCache state_corrupt (node_id frame_label) = None"
  "pluginData state_corrupt (node_id frame_label) = utf16 ''{oops''"
  "utf16 ''{oops'' \<noteq> []"
  "JSON_parse example_host (utf16 ''{oops'') = SyntaxError"
  by (simp_all add: state_corrupt_def node_id_frame_label example_host_def example_parse_def
      oops_not_json) (simp add: utf16_def)

lemma generateContentHash_frame_label:
  "generateContentHash (toStringRadix 10) frame_label = utf16 ''jpiaoq''"
  by (simp only: generateContentHash_def stringify_frame_label simpleHash_frame_label)

lemma example_entry_valid:
  "isCacheValid (toStringRadix 10) 1763000000000 frame_label example_entry"
  by (simp add: isCacheValid_def isExpired_def CACHE_DURATION_def example_entry_def
      generateContentHash_frame_label)

lemma getCacheAge_example: "getCacheAge 1763000000000 1762990000000 = utf16 ''2h ago''"
  by (simp add: getCacheAge_def Let_def toStringRadix.simps digit36_def utf16_def)

lemma groupIssuesByElement_Nil: "groupIssuesByElement [] = Inr []"
  by (simp add: groupIssuesByElement_def)

lemma example_entry_issues_valid:
  "isCacheValid (toStringRadix 10) 1763000000000 frame_label example_entry_issues"
  by (simp add: isCacheValid_def isExpired_def CACHE_DURATION_def example_entry_issues_def
      generateContentHash_frame_label)

lemma example_entry_issues_fields:
  "results example_entry_issues = [issue_label_contrast, issue_label_lineheight]"
  "timestamp example_entry_issues = 1762990000000"
  by (simp_all add: example_entry_issues_def)

lemma label_issues_on_node:
  "nodeIdShaped (elementId issue_label_contrast)"
  "nodeIdShaped (elementId issue_label_lineheight)"
  by (simp_all add: nodeIdShaped_def issue_label_contrast_def issue_label_lineheight_def
      utf16_def)

lemma state_cached_facts:
  "selectedFrame state_cached = Some frame_label"
  "analysisCache state_cached (node_id frame_label) = Some example_entry_issues"
  "events state_cached = []"
  by (simp_all add: state_cached_def node_id_frame_label)

lemma host_facts:
  "numberToString example_host = toStringRadix 10" "Date_now example_host = 1763000000000"
  "numberToString failing_host = toStringRadix 10" "Date_now failing_host = 1763000000000"
  "JSON_parse failing_host = JSON_parse example_host"
  "analyzeFrame failing_host frame_label (msg_checks msg_forced)
     = Raised (utf16 ''TypeError: not a function'') []"
  "forceReanalyze msg_forced" "\<not> forceReanalyze msg_plain"
  by (simp_all add: example_host_def failing_host_def msg_forced_def msg_plain_def
      driver_raises_def)

lemma countElements_frame_label: "countElements frame_label = 2"
  by (simp add: frame_label_def)

lemma example_host_calls:
  "analyzeFrame example_host frame_label (msg_checks msg_forced) = Returned []"
  "useAI msg_forced = False" "showOverlay msg_forced = False"
  "setPluginData_raises example_host = False"
  "JSON_stringify example_host = stringifyEntryNoResults"
  by (simp_all add: example_host_def msg_forced_def driver_finds_nothing_def)

subsection \<open>A slot that does not parse\<close>

text \<open>
  C6. For every node with no tier-1 entry whose persisted tier-2 payload fails to
  deserialize, the lookup returns absent and the failure is not passed on to the caller:
  it is logged to the console and nothing else happens. The lookup does not evict the
  payload: it leaves both tiers as they are.
\<close>

theorem getCachedAnalysis_corrupt_absent_not_evicted:
  "analysisCache s (node_id frame) = None \<Longrightarrow> pluginData s (node_id frame) \<noteq> [] \<Longrightarrow>
   JSON_parse h (pluginData s (node_id frame)) = SyntaxError \<Longrightarrow>
     fst (getCachedAnalysis h frame s) = None
     \<and> analysisCache (snd (getCachedAnalysis h frame s)) = analysisCache s
     \<and> pluginData (snd (getCachedAnalysis h frame s)) = pluginData s
     \<and> selectedFrame (snd (getCachedAnalysis h frame s)) = selectedFrame s
     \<and> currentIssues (snd (getCachedAnalysis h frame s)) = currentIssues s
     \<and> events (snd (getCachedAnalysis h frame s)) = events s @ [ConsoleError]"
  by (simp add: getCachedAnalysis_def emit_def)

theorem getCachedAnalysis_corrupt_absent_not_evicted_witness:
  "analysisCache state_corrupt (node_id frame_label) = None
   \<and> pluginData state_corrupt (node_id frame_label) = utf16 ''{oops''
   \<and> utf16 ''{oops'' \<noteq> []
   \<and> JSON_parse example_host (utf16 ''{oops'') = SyntaxError
   \<and> fst (getCachedAnalysis example_host frame_label state_corrupt) = None
   \<and> events (snd (getCachedAnalysis example_host frame_label state_corrupt)) = [ConsoleError]"
proof -
  note f = state_corrupt_facts
  have e: "events state_corrupt = []" by (simp add: state_corrupt_def)
  from getCachedAnalysis_corrupt_absent_not_evicted
         [of state_corrupt frame_label example_host] f e
  have "fst (getCachedAnalysis example_host frame_label state_corrupt) = None
        \<and> events (snd (getCachedAnalysis example_host frame_label state_corrupt)) = [ConsoleError]"
    by simp
  with f show ?thesis by simp
qed

text \<open>
  The specification has the lookup return absent and the corrupt entry evicted. With
  \<open>{oops\<close> in the slot and nothing in tier 1 the lookup returns absent and the slot still
  holds \<open>{oops\<close> afterwards. With \<open>{oops\<close> in the slot and a valid entry in tier 1 the
  lookup returns that entry, and the slot is not read.
\<close>

theorem getCachedAnalysis_corrupt_counterexample:
  "JSON_parse example_host (pluginData state_corrupt (node_id frame_label)) = SyntaxError
   \<and> fst (getCachedAnalysis example_host frame_label state_corrupt) = None
   \<and> pluginData (snd (getCachedAnalysis example_host frame_label state_corrupt))
        (node_id frame_label) = utf16 ''{oops''
   \<and> utf16 ''{oops'' \<noteq> []
   \<and> JSON_parse example_host (pluginData state_cached_slot_corrupt (node_id frame_label))
       = SyntaxError
   \<and> getCachedAnalysis example_host frame_label state_cached_slot_corrupt
       = (Some example_entry, state_cached_slot_corrupt)"
proof -
  have a: "fst (getCachedAnalysis example_host frame_label state_corrupt) = None
     \<and> pluginData (snd (getCachedAnalysis example_host frame_label state_corrupt))
          (node_id frame_label) = utf16 ''{oops''"
    using state_corrupt_facts by (simp add: getCachedAnalysis_corrupt emit_def)
  have t: "analysisCache state_cached_slot_corrupt (node_id frame_label) = Some example_entry"
    and p: "pluginData state_cached_slot_corrupt (node_id frame_label) = utf16 ''{oops''"
    by (simp_all add: state_cached_slot_corrupt_def node_id_frame_label)
  have v: "isCacheValid (numberToString example_host) (Date_now example_host) frame_label
             example_entry"
    by (simp add: host_facts example_entry_valid)
  have "getCachedAnalysis example_host frame_label state_cached_slot_corrupt
          = (Some example_entry, state_cached_slot_corrupt)"
    using t v by (simp add: getCachedAnalysis_def validateOrClear_def)
  with a p state_corrupt_facts show ?thesis by simp
qed


subsection \<open>A request served from the cache\<close>




subsection \<open>A failed analysis\<close>

lemma catchAnalysisError_fields:
  "analysisCache (catchAnalysisError err s) = analysisCache s"
  "pluginData (catchAnalysisError err s) = pluginData s"
  "selectedFrame (catchAnalysisError err s) = selectedFrame s"
  "events (catchAnalysisError err s) =
     events s @ [ConsoleError, PostMessage (ErrorMessage (utf16 ''Analysis failed: '' @ err)),
                 Notify AnalysisFailedNote]"
  by (simp_all add: catchAnalysisError_def emit_def)

lemma driver_raised_events:
  assumes "selectedFrame s = Some frame"
    and "analyzeFrame h frame (msg_checks msg) = Raised err pushed"
    and "forceReanalyze msg \<or> fst (getCachedAnalysis h frame s) = None"
  shows "\<exists>before. events (onAnalyze h msg s) =
           events s @ before @
             [ClearOverlays, PostMessage (AnalysisProgress 0 (countElements frame)), RunAnalysis,
              ConsoleError, PostMessage (ErrorMessage (utf16 ''Analysis failed: '' @ err)),
              Notify AnalysisFailedNote]
         \<and> (before = [] \<or> before = [ConsoleError])"
proof (cases "forceReanalyze msg")
  case True
  then show ?thesis
    by (simp add: onAnalyze_driver_raised [OF assms] catchAnalysisError_fields)
next
  case False
  with assms(3) have n: "fst (getCachedAnalysis h frame s) = None" by simp
  from getCachedAnalysis_None [OF n]
  have "events (snd (getCachedAnalysis h frame s)) = events s
        \<or> events (snd (getCachedAnalysis h frame s)) = events s @ [ConsoleError]"
    by blast
  with False show ?thesis
    by (auto simp: onAnalyze_driver_raised [OF assms] catchAnalysisError_fields)
qed

lemma driver_raised_caches:
  assumes "selectedFrame s = Some frame"
    and "analyzeFrame h frame (msg_checks msg) = Raised err pushed"
    and "forceReanalyze msg \<or> fst (getCachedAnalysis h frame s) = None"
  shows "(analysisCache (onAnalyze h msg s) nid = analysisCache s nid
            \<or> analysisCache (onAnalyze h msg s) nid = None)
         \<and> (pluginData (onAnalyze h msg s) nid = pluginData s nid
            \<or> pluginData (onAnalyze h msg s) nid = [])"
proof (cases "forceReanalyze msg")
  case True
  then show ?thesis
    by (simp add: onAnalyze_driver_raised [OF assms] catchAnalysisError_fields)
next
  case False
  with assms(3) have n: "fst (getCachedAnalysis h frame s) = None" by simp
  from getCachedAnalysis_None [OF n] False show ?thesis
    by (simp add: onAnalyze_driver_raised [OF assms] catchAnalysisError_fields)
qed

lemma driver_raised_entry_untouched:
  assumes sel: "selectedFrame s = Some frame"
    and drv: "analyzeFrame h frame (msg_checks msg) = Raised err pushed"
    and reached: "forceReanalyze msg \<or> fst (getCachedAnalysis h frame s) = None"
    and prior: "fst (getCachedAnalysis h frame s) = Some cached"
  shows "analysisCache (onAnalyze h msg s) = analysisCache s"
    and "pluginData (onAnalyze h msg s) = pluginData s"
    and "selectedFrame (onAnalyze h msg s) = Some frame"
proof -
  from reached prior have forced: "forceReanalyze msg" by auto
  show "analysisCache (onAnalyze h msg s) = analysisCache s"
    and "pluginData (onAnalyze h msg s) = pluginData s"
    and "selectedFrame (onAnalyze h msg s) = Some frame"
    using forced sel
    by (simp_all add: onAnalyze_driver_raised [OF sel drv reached] catchAnalysisError_fields)
qed

lemma driver_raised_entry_still_served:
  assumes sel: "selectedFrame s = Some frame"
    and drv: "analyzeFrame h frame (msg_checks msg) = Raised err pushed"
    and reached: "forceReanalyze msg \<or> fst (getCachedAnalysis h frame s) = None"
    and prior: "fst (getCachedAnalysis h frame s) = Some cached"
    and next_msg: "\<not> forceReanalyze msg2"
    and parser: "JSON_parse h2 = JSON_parse h"
    and valid: "isCacheValid (numberToString h2) (Date_now h2) frame cached"
    and ids: "\<forall>i \<in> set (results cached). nodeIdShaped (elementId i)"
  shows "\<exists>groupedIssues rest.
           groupIssuesByElement (results cached) = Inr groupedIssues
           \<and> mset (map fst (concat (map group_issues groupedIssues))) = mset (results cached)
           \<and> events (onAnalyze h2 msg2 (onAnalyze h msg s)) =
               events (onAnalyze h msg s) @
                 PostMessage (AnalysisComplete groupedIssues (length (results cached)) True
                   (Some (getCacheAge (Date_now h2) (timestamp cached)))) # rest
           \<and> filter isDriverOrRemote rest = []"
proof -
  let ?s' = "onAnalyze h msg s"
  note c = driver_raised_entry_untouched [OF sel drv reached prior]
  from getCachedAnalysis_Some [OF prior]
  have "analysisCache s (node_id frame) = Some cached
           \<or> (analysisCache s (node_id frame) = None \<and> pluginData s (node_id frame) \<noteq> []
               \<and> JSON_parse h (pluginData s (node_id frame)) = Entry cached)"
    by blast
  then have hit: "analysisCache ?s' (node_id frame) = Some cached
           \<or> (analysisCache ?s' (node_id frame) = None \<and> pluginData ?s' (node_id frame) \<noteq> []
               \<and> JSON_parse h2 (pluginData ?s' (node_id frame)) = Entry cached)"
    by (simp only: c parser)
  from onAnalyze_cache_hit [OF c(3) next_msg hit valid ids] show ?thesis .
qed

text \<open>
  C8. For every \<open>analyze\<close> request in which the analysis driver raises: the request
  ends by reporting \<open>Analysis failed: ...\<close> to the panel, right after the driver's run;
  no entry is written (every slot of both tiers is as before or, where the lookup evicted
  an invalid entry, empty); and an entry that the lookup would have served before the
  request is untouched in both tiers, and the next non-forced request at which it still
  validates serves its issues, each of them once, without a driver run (the issues being
  issues on nodes).
\<close>

theorem failed_analysis_reported_cache_kept:
  assumes "selectedFrame s = Some frame"
    and "analyzeFrame (h :: 'c host) frame (msg_checks msg) = Raised err pushed"
    and "forceReanalyze msg \<or> fst (getCachedAnalysis h frame s) = None"
  shows "(\<exists>before. events (onAnalyze h msg s) =
            events s @ before @
              [ClearOverlays, PostMessage (AnalysisProgress 0 (countElements frame)), RunAnalysis,
               ConsoleError, PostMessage (ErrorMessage (utf16 ''Analysis failed: '' @ err)),
               Notify AnalysisFailedNote]
          \<and> (before = [] \<or> before = [ConsoleError]))
       \<and> (\<forall>nid. (analysisCache (onAnalyze h msg s) nid = analysisCache s nid
                   \<or> analysisCache (onAnalyze h msg s) nid = None)
                \<and> (pluginData (onAnalyze h msg s) nid = pluginData s nid
                   \<or> pluginData (onAnalyze h msg s) nid = []))
       \<and> (\<forall>cached. fst (getCachedAnalysis h frame s) = Some cached \<longrightarrow>
             analysisCache (onAnalyze h msg s) = analysisCache s
             \<and> pluginData (onAnalyze h msg s) = pluginData s
             \<and> (\<forall>h2 msg2.
                   \<not> forceReanalyze msg2 \<and> JSON_parse h2 = JSON_parse h
                   \<and> isCacheValid (numberToString h2) (Date_now h2) frame cached
                   \<and> (\<forall>i \<in> set (results cached). nodeIdShaped (elementId i)) \<longrightarrow>
                     (\<exists>groupedIssues rest.
                         groupIssuesByElement (results cached) = Inr groupedIssues
                         \<and> mset (map fst (concat (map group_issues groupedIssues)))
                             = mset (results cached)
                         \<and> events (onAnalyze h2 msg2 (onAnalyze h msg s)) =
                             events (onAnalyze h msg s) @
                               PostMessage (AnalysisComplete groupedIssues
                                 (length (results cached)) True
                                 (Some (getCacheAge (Date_now h2) (timestamp cached)))) # rest
                         \<and> filter isDriverOrRemote rest = [])))"
proof -
  have p1: "\<exists>before. events (onAnalyze h msg s) =
            events s @ before @
              [ClearOverlays, PostMessage (AnalysisProgress 0 (countElements frame)), RunAnalysis,
               ConsoleError, PostMessage (ErrorMessage (utf16 ''Analysis failed: '' @ err)),
               Notify AnalysisFailedNote]
          \<and> (before = [] \<or> before = [ConsoleError])"
    using assms by (rule driver_raised_events)
  have p2: "\<forall>nid. (analysisCache (onAnalyze h msg s) nid = analysisCache s nid
                   \<or> analysisCache (onAnalyze h msg s) nid = None)
                \<and> (pluginData (onAnalyze h msg s) nid = pluginData s nid
                   \<or> pluginData (onAnalyze h msg s) nid = [])"
    using driver_raised_caches [OF assms] by (intro allI)
  have p3: "\<forall>cached. fst (getCachedAnalysis h frame s) = Some cached \<longrightarrow>
             analysisCache (onAnalyze h msg s) = analysisCache s
             \<and> pluginData (onAnalyze h msg s) = pluginData s
             \<and> (\<forall>h2 msg2.
                   \<not> forceReanalyze msg2 \<and> JSON_parse h2 = JSON_parse h
                   \<and> isCacheValid (numberToString h2) (Date_now h2) frame cached
                   \<and> (\<forall>i \<in> set (results cached). nodeIdShaped (elementId i)) \<longrightarrow>
                     (\<exists>groupedIssues rest.
                         groupIssuesByElement (results cached) = Inr groupedIssues
                         \<and> mset (map fst (concat (map group_issues groupedIssues)))
                             = mset (results cached)
                         \<and> events (onAnalyze h2 msg2 (onAnalyze h msg s)) =
                             events (onAnalyze h msg s) @
                               PostMessage (AnalysisComplete groupedIssues
                                 (length (results cached)) True
                                 (Some (getCacheAge (Date_now h2) (timestamp cached)))) # rest
                         \<and> filter isDriverOrRemote rest = []))"
  proof (intro allI impI conjI)
    fix cached :: cached_analysis
    assume a1: "fst (getCachedAnalysis h frame s) = Some cached"
    show "analysisCache (onAnalyze h msg s) = analysisCache s"
      by (rule driver_raised_entry_untouched(1) [OF assms a1])
    show "pluginData (onAnalyze h msg s) = pluginData s"
      by (rule driver_raised_entry_untouched(2) [OF assms a1])
    fix h2 :: "'c host" and msg2 :: analyze_msg
    assume a: "\<not> forceReanalyze msg2 \<and> JSON_parse h2 = JSON_parse h
             \<and> isCacheValid (numberToString h2) (Date_now h2) frame cached
             \<and> (\<forall>i \<in> set (results cached). nodeIdShaped (elementId i))"
    then have a2: "\<not> forceReanalyze msg2" and a3: "JSON_parse h2 = JSON_parse h"
      and a4: "isCacheValid (numberToString h2) (Date_now h2) frame cached"
      and a5: "\<forall>i \<in> set (results cached). nodeIdShaped (elementId i)"
      by simp_all
    show "\<exists>groupedIssues rest.
            groupIssuesByElement (results cached) = Inr groupedIssues
            \<and> mset (map fst (concat (map group_issues groupedIssues))) = mset (results cached)
            \<and> events (onAnalyze h2 msg2 (onAnalyze h msg s)) =
                events (onAnalyze h msg s) @
                  PostMessage (AnalysisComplete groupedIssues (length (results cached)) True
                    (Some (getCacheAge (Date_now h2) (timestamp cached)))) # rest
            \<and> filter isDriverOrRemote rest = []"
      by (rule driver_raised_entry_still_served [OF assms a1 a2 a3 a4 a5])
  qed
  from p1 p2 p3 show ?thesis by (intro conjI)
qed

theorem failed_analysis_reported_cache_kept_witness:
  "selectedFrame state_cached = Some frame_label
   \<and> analyzeFrame failing_host frame_label (msg_checks msg_forced)
       = Raised (utf16 ''TypeError: not a function'') []
   \<and> forceReanalyze msg_forced
   \<and> fst (getCachedAnalysis failing_host frame_label state_cached) = Some example_entry_issues
   \<and> \<not> forceReanalyze msg_plain
   \<and> isCacheValid (numberToString failing_host) (Date_now failing_host) frame_label
        example_entry_issues
   \<and> results example_entry_issues = [issue_label_contrast, issue_label_lineheight]
   \<and> nodeIdShaped (elementId issue_label_contrast)
   \<and> nodeIdShaped (elementId issue_label_lineheight)
   \<and> events (onAnalyze failing_host msg_forced state_cached) =
       [ClearOverlays, PostMessage (AnalysisProgress 0 2), RunAnalysis, ConsoleError,
        PostMessage (ErrorMessage (utf16 ''Analysis failed: TypeError: not a function'')),
        Notify AnalysisFailedNote]
   \<and> analysisCache (onAnalyze failing_host msg_forced state_cached) = analysisCache state_cached
   \<and> pluginData (onAnalyze failing_host msg_forced state_cached) = pluginData state_cached
   \<and> events (onAnalyze failing_host msg_plain (onAnalyze failing_host msg_forced state_cached))
         ! length (events (onAnalyze failing_host msg_forced state_cached))
       = PostMessage (AnalysisComplete [label_group] 2 True (Some (utf16 ''2h ago'')))"
proof -
  let ?s' = "onAnalyze failing_host msg_forced state_cached"
  have v: "isCacheValid (numberToString failing_host) (Date_now failing_host) frame_label
             example_entry_issues"
    by (simp add: host_facts example_entry_issues_valid)
  have t: "analysisCache state_cached (node_id frame_label) = Some example_entry_issues
           \<or> (analysisCache state_cached (node_id frame_label) = None
               \<and> pluginData state_cached (node_id frame_label) \<noteq> []
               \<and> JSON_parse failing_host (pluginData state_cached (node_id frame_label))
                   = Entry example_entry_issues)"
    by (simp add: state_cached_facts)
  have p: "fst (getCachedAnalysis failing_host frame_label state_cached)
             = Some example_entry_issues"
    by (simp add: getCachedAnalysis_hit [OF t v])
  have r: "forceReanalyze msg_forced
           \<or> fst (getCachedAnalysis failing_host frame_label state_cached) = None"
    by (simp add: host_facts)
  have ids: "\<forall>i \<in> set (results example_entry_issues). nodeIdShaped (elementId i)"
    by (simp add: example_entry_issues_fields label_issues_on_node)
  note kept = failed_analysis_reported_cache_kept [OF state_cached_facts(1) host_facts(6) r]
  have forced_events: "events ?s' =
       [ClearOverlays, PostMessage (AnalysisProgress 0 (countElements frame_label)),
        RunAnalysis, ConsoleError,
        PostMessage (ErrorMessage (utf16 ''Analysis failed: ''
                       @ utf16 ''TypeError: not a function'')),
        Notify AnalysisFailedNote]"
    by (simp add: onAnalyze_driver_raised [OF state_cached_facts(1) host_facts(6) r]
        host_facts catchAnalysisError_fields state_cached_facts)
  from kept p
  have c: "analysisCache ?s' = analysisCache state_cached"
      "pluginData ?s' = pluginData state_cached"
    and served: "\<forall>h2 msg2.
        \<not> forceReanalyze msg2 \<and> JSON_parse h2 = JSON_parse failing_host
        \<and> isCacheValid (numberToString h2) (Date_now h2) frame_label example_entry_issues
        \<and> (\<forall>i \<in> set (results example_entry_issues). nodeIdShaped (elementId i)) \<longrightarrow>
          (\<exists>groupedIssues rest.
              groupIssuesByElement (results example_entry_issues) = Inr groupedIssues
              \<and> mset (map fst (concat (map group_issues groupedIssues)))
                  = mset (results example_entry_issues)
              \<and> events (onAnalyze h2 msg2 ?s') =
                  events ?s' @
                    PostMessage (AnalysisComplete groupedIssues
                      (length (results example_entry_issues)) True
                      (Some (getCacheAge (Date_now h2) (timestamp example_entry_issues)))) # rest
              \<and> filter isDriverOrRemote rest = [])"
    by blast+
  from served host_facts(8) v ids
  obtain groupedIssues rest where
    g: "groupIssuesByElement (results example_entry_issues) = Inr groupedIssues"
    and e: "events (onAnalyze failing_host msg_plain ?s') =
              events ?s' @
                PostMessage (AnalysisComplete groupedIssues
                  (length (results example_entry_issues)) True
                  (Some (getCacheAge (Date_now failing_host) (timestamp example_entry_issues))))
                # rest"
    by blast
  from g have "groupedIssues = [label_group]"
    by (simp add: example_entry_issues_fields groupIssuesByElement_label)
  with e have "events (onAnalyze failing_host msg_plain ?s') ! length (events ?s')
                 = PostMessage (AnalysisComplete [label_group] 2 True (Some (utf16 ''2h ago'')))"
    by (simp add: example_entry_issues_fields host_facts getCacheAge_example)
  moreover have "events ?s' =
       [ClearOverlays, PostMessage (AnalysisProgress 0 2), RunAnalysis, ConsoleError,
        PostMessage (ErrorMessage (utf16 ''Analysis failed: TypeError: not a function'')),
        Notify AnalysisFailedNote]"
    by (simp only: forced_events countElements_frame_label) (simp add: utf16_def)
  ultimately show ?thesis
    using p v c
    by (simp add: state_cached_facts host_facts example_entry_issues_fields
        label_issues_on_node)
qed

subsection \<open>A successful fresh analysis\<close>

text \<open>
  C3, as the code behaves. A successful fresh analysis writes the new entry to both local
  tiers and posts the result; it sends no network request at all. The write-through to
  the remote store and the call of resolve-changes that the specification orders after the local
  write do not take place: the handler never calls the remote client.
\<close>

theorem fresh_analysis_writes_local_cache_only:
  "events (onAnalyze example_host msg_forced state_fresh) =
     [ClearOverlays, PostMessage (AnalysisProgress 0 2), RunAnalysis,
      PostMessage (AnalysisComplete [] 0 False None), Notify (AnalysisCompleteFound 0)]
   \<and> analysisCache (onAnalyze example_host msg_forced state_fresh) (utf16 ''1:1'') =
       Some \<lparr>timestamp = 1763000000000, version = PLUGIN_VERSION,
             contentHash = utf16 ''jpiaoq'', results = []\<rparr>
   \<and> pluginData (onAnalyze example_host msg_forced state_fresh) (utf16 ''1:1'') =
       stringifyEntryNoResults
         \<lparr>timestamp = 1763000000000, version = PLUGIN_VERSION,
          contentHash = utf16 ''jpiaoq'', results = []\<rparr>
   \<and> filter isDriverOrRemote (events (onAnalyze example_host msg_forced state_fresh))
       = [RunAnalysis]"
proof -
  have s: "selectedFrame state_fresh = Some frame_label" "events state_fresh = []"
    by (simp_all add: state_fresh_def)
  have f: "freshAnalysis example_host msg_forced frame_label state_fresh =
     (None, state_fresh\<lparr>currentIssues := [],
        analysisCache := (analysisCache state_fresh)(utf16 ''1:1'' \<mapsto>
           \<lparr>timestamp = 1763000000000, version = PLUGIN_VERSION,
             contentHash = utf16 ''jpiaoq'', results = []\<rparr>),
        pluginData := (pluginData state_fresh)(utf16 ''1:1'' := stringifyEntryNoResults
           \<lparr>timestamp = 1763000000000, version = PLUGIN_VERSION,
             contentHash = utf16 ''jpiaoq'', results = []\<rparr>),
        events := [ClearOverlays, PostMessage (AnalysisProgress 0 2), RunAnalysis,
           PostMessage (AnalysisComplete [] 0 False None), Notify (AnalysisCompleteFound 0)]\<rparr>)"
    by (simp add: freshAnalysis_def Let_def emit_def example_host_calls setCachedAnalysis_def
        host_facts generateContentHash_frame_label node_id_frame_label groupIssuesByElement_Nil
        countElements_frame_label s)
  have o: "onAnalyze example_host msg_forced state_fresh =
             tryCatch (freshAnalysis example_host msg_forced frame_label state_fresh)"
    by (simp add: onAnalyze_def s host_facts)
  show ?thesis
    unfolding o f by simp
qed


end
